theory Spec2Isabelle
  imports Complex_Main
begin

section \<open>JavaScript values\<close>

text \<open>
  The server keeps each room's state as a plain JavaScript object that it reads from and
  writes to a JSON file. The values are modelled as they are at run time: dynamically
  typed. A number is a double: \<open>JNum n\<close> stands for the integer \<open>n\<close>, \<open>JNaN\<close>
  for \<open>NaN\<close>, which \<open>parseInt\<close> produces. The arithmetic of doubles is that of the
  integers on the safe integers (\<open>Number.isSafeInteger\<close>: up to \<open>2^53 - 1\<close> in
  absolute value; counts and epoch milliseconds are far below); the operations of the code
  are modelled there, and a result that would leave this range is marked as not modelled
  instead of computed. Strings are lists of 8-bit characters. An array may carry
  named properties beside its elements, as a JavaScript array can (\<open>readData\<close>
  assigns \<open>count\<close>, \<open>log\<close>, ... to whatever object it parsed, also to an array); an
  object is its list of properties in insertion order.
\<close>

datatype jsval =
    JUndefined
  | JNull
  | JBool bool
  | JNum int
  | JNaN
  | JStr string
  | JArr "jsval list" "(string \<times> jsval) list"
  | JObj "(string \<times> jsval) list"

definition safe_integer :: "int \<Rightarrow> bool" where
  "safe_integer n = (- 9007199254740991 \<le> n \<and> n \<le> 9007199254740991)"

text \<open>
  What the code can throw: \<open>new Error('Invalid data structure')\<close> of \<open>writeData\<close>,
  a \<open>TypeError\<close> of the language (a property read of \<open>undefined\<close> or \<open>null\<close>,
  a call of something that is not a function), the \<open>SyntaxError\<close> of
  \<open>JSON.parse\<close>, and an error of the file system.
\<close>

datatype error = InvalidData | TypeError | SyntaxError | IOError

text \<open>\<open>!v\<close> is false exactly on the truthy values.\<close>

fun truthy :: "jsval \<Rightarrow> bool" where
  "truthy JUndefined = False"
| "truthy JNull = False"
| "truthy (JBool b) = b"
| "truthy (JNum n) = (n \<noteq> 0)"
| "truthy JNaN = False"
| "truthy (JStr s) = (s \<noteq> [])"
| "truthy (JArr xs ps) = True"
| "truthy (JObj kvs) = True"

datatype jstype = TUndefined | TObject | TBoolean | TNumber | TString

fun typeof :: "jsval \<Rightarrow> jstype" where
  "typeof JUndefined = TUndefined"
| "typeof JNull = TObject"
| "typeof (JBool b) = TBoolean"
| "typeof (JNum n) = TNumber"
| "typeof JNaN = TNumber"
| "typeof (JStr s) = TString"
| "typeof (JArr xs ps) = TObject"
| "typeof (JObj kvs) = TObject"

fun isArray :: "jsval \<Rightarrow> bool" where
  "isArray (JArr xs ps) = True"
| "isArray v = False"

text \<open>
  A property read \<open>v.k\<close> throws a \<open>TypeError\<close> when \<open>v\<close> is \<open>undefined\<close>
  or \<open>null\<close>. On every other value it yields \<open>prop_of k v\<close>: the own property where
  there is one, the \<open>length\<close> of an array or a string, and \<open>undefined\<close> otherwise
  (the code reads no array index and no inherited method through it).
\<close>

fun nullish :: "jsval \<Rightarrow> bool" where
  "nullish JUndefined = True"
| "nullish JNull = True"
| "nullish v = False"

fun prop_of :: "string \<Rightarrow> jsval \<Rightarrow> jsval" where
  "prop_of k (JObj kvs) = (case map_of kvs k of Some v \<Rightarrow> v | None \<Rightarrow> JUndefined)"
| "prop_of k (JArr xs ps) =
     (if k = ''length'' then JNum (int (length xs))
      else case map_of ps k of Some v \<Rightarrow> v | None \<Rightarrow> JUndefined)"
| "prop_of k (JStr s) = (if k = ''length'' then JNum (int (length s)) else JUndefined)"
| "prop_of k v = JUndefined"

definition get_prop :: "string \<Rightarrow> jsval \<Rightarrow> error + jsval" where
  "get_prop k v = (if nullish v then Inl TypeError else Inr (prop_of k v))"

text \<open>
  \<open>v.k = x\<close> on an object or an array (the only receivers the code assigns to): an
  existing property keeps its place, a new one goes last.
\<close>

fun upd :: "string \<Rightarrow> jsval \<Rightarrow> (string \<times> jsval) list \<Rightarrow> (string \<times> jsval) list" where
  "upd k x [] = [(k, x)]"
| "upd k x (p # ps) = (if fst p = k then (k, x) # ps else p # upd k x ps)"

fun set_prop :: "string \<Rightarrow> jsval \<Rightarrow> jsval \<Rightarrow> jsval" where
  "set_prop k x (JObj kvs) = JObj (upd k x kvs)"
| "set_prop k x (JArr xs ps) = JArr xs (upd k x ps)"
| "set_prop k x v = v"

section \<open>Room resolver\<close>

text \<open>
  \<^verbatim>\<open>
  function getDataFile(accessCode) {
    const sanitizedCode = accessCode.replace(/[^a-zA-Z0-9-_]/g, '_');
    return path.join(__dirname, `counter-data-${sanitizedCode}.json`);
  }
  \<close>
  The character class holds the letters, the digits, the dash and the underscore; the
  global replace maps every other character to an underscore. Paths are modelled
  relative to \<open>__dirname\<close>: the file name has no separator, so the join only puts the
  directory in front. \<open>accessCode.replace\<close> is a \<open>TypeError\<close> when \<open>accessCode\<close>
  is not a string (no value but a string has a callable \<open>replace\<close>).
\<close>

definition code_char :: "char \<Rightarrow> bool" where
  "code_char c =
     (let n = (of_char c :: nat) in
        (97 \<le> n \<and> n \<le> 122) \<or> (65 \<le> n \<and> n \<le> 90) \<or> (48 \<le> n \<and> n \<le> 57)
        \<or> c = CHR ''-'' \<or> c = CHR ''_'')"

definition sanitizedCode :: "string \<Rightarrow> string" where
  "sanitizedCode accessCode = map (\<lambda>c. if code_char c then c else CHR ''_'') accessCode"

fun getDataFile :: "jsval \<Rightarrow> error + string" where
  "getDataFile (JStr accessCode) = Inr (''counter-data-'' @ sanitizedCode accessCode @ ''.json'')"
| "getDataFile v = Inl TypeError"


section \<open>Documents on disk\<close>

text \<open>
  A file holds text. The code only ever hands a file's text to \<open>JSON.parse\<close> and only
  ever writes the text \<open>JSON.stringify\<close> made, so a text is modelled by what the parser
  makes of it: the value it parses to, or a text the parser rejects. \<open>JSON.stringify\<close>
  writes the JSON image of a value: a property whose value is \<open>undefined\<close> is left
  out, an array element that is \<open>undefined\<close> and the number \<open>NaN\<close> become
  \<open>null\<close>, and an array's named properties are not written.
\<close>

datatype content = Json jsval | Corrupt

fun json_image :: "jsval \<Rightarrow> jsval" where
  "json_image JUndefined = JNull"
| "json_image JNaN = JNull"
| "json_image (JArr xs ps) = JArr (map json_image xs) []"
| "json_image (JObj kvs) =
     JObj (map (\<lambda>kv. (fst kv, json_image (snd kv))) (filter (\<lambda>kv. snd kv \<noteq> JUndefined) kvs))"
| "json_image v = v"

definition JSON_stringify :: "jsval \<Rightarrow> content" where
  "JSON_stringify v = Json (json_image v)"

fun JSON_parse :: "content \<Rightarrow> error + jsval" where
  "JSON_parse (Json v) = Inr v"
| "JSON_parse Corrupt = Inl SyntaxError"

text \<open>
  The directory of the server is a map from file names to contents. The calls of
  \<open>fs\<close> can fail; which of them do, during one call of the code, is an input of the
  model. A write that fails may leave nothing or a file with some content behind.
\<close>

type_synonym files = "string \<Rightarrow> content option"

datatype write_outcome = Written | WriteError "content option"

record faults =
  read_fails :: "string \<Rightarrow> bool"
  copy_fails :: bool
  write_result :: write_outcome
  rename_fails :: bool
  unlink_fails :: bool

definition no_faults :: faults where
  "no_faults = \<lparr>read_fails = (\<lambda>p. False), copy_fails = False, write_result = Written,
     rename_fails = False, unlink_fails = False\<rparr>"

definition existsSync :: "string \<Rightarrow> files \<Rightarrow> bool" where
  "existsSync p fs = (fs p \<noteq> None)"

definition readFileSync :: "string \<Rightarrow> faults \<Rightarrow> files \<Rightarrow> error + content" where
  "readFileSync p flt fs =
     (case fs p of
        None \<Rightarrow> Inl IOError
      | Some c \<Rightarrow> if read_fails flt p then Inl IOError else Inr c)"

definition copyFileSync :: "string \<Rightarrow> string \<Rightarrow> faults \<Rightarrow> files \<Rightarrow> (error + unit) \<times> files" where
  "copyFileSync src dst flt fs =
     (case fs src of
        None \<Rightarrow> (Inl IOError, fs)
      | Some c \<Rightarrow> if copy_fails flt then (Inl IOError, fs) else (Inr (), fs(dst \<mapsto> c)))"

definition writeFileSync :: "string \<Rightarrow> content \<Rightarrow> faults \<Rightarrow> files \<Rightarrow> (error + unit) \<times> files" where
  "writeFileSync p c flt fs =
     (case write_result flt of
        Written \<Rightarrow> (Inr (), fs(p \<mapsto> c))
      | WriteError None \<Rightarrow> (Inl IOError, fs)
      | WriteError (Some partial) \<Rightarrow> (Inl IOError, fs(p \<mapsto> partial)))"

definition renameSync :: "string \<Rightarrow> string \<Rightarrow> faults \<Rightarrow> files \<Rightarrow> (error + unit) \<times> files" where
  "renameSync src dst flt fs =
     (case fs src of
        None \<Rightarrow> (Inl IOError, fs)
      | Some c \<Rightarrow> if rename_fails flt then (Inl IOError, fs)
                  else (Inr (), (fs(dst \<mapsto> c))(src := None)))"

definition unlinkSync :: "string \<Rightarrow> faults \<Rightarrow> files \<Rightarrow> (error + unit) \<times> files" where
  "unlinkSync p flt fs =
     (case fs p of
        None \<Rightarrow> (Inl IOError, fs)
      | Some c \<Rightarrow> if unlink_fails flt then (Inl IOError, fs) else (Inr (), fs(p := None)))"

section \<open>Persist: \<open>writeData\<close>\<close>

text \<open>
  \<^verbatim>\<open>
  function writeData(accessCode, data) {
    const dataFile = getDataFile(accessCode);
    const tempFile = dataFile + '.tmp';
    const backupFile = dataFile + '.backup';
    try {
      if (!data || typeof data !== 'object') {
        throw new Error('Invalid data structure');
      }
      if (fs.existsSync(dataFile)) {
        fs.copyFileSync(dataFile, backupFile);
      }
      fs.writeFileSync(tempFile, JSON.stringify(data, null, 2));
      fs.renameSync(tempFile, dataFile);
      console.log(`Data saved for ${accessCode}: ${data.count} snacks, ${data.log.length} log entries`);
    } catch (error) {
      if (fs.existsSync(tempFile)) {
        try { fs.unlinkSync(tempFile); } catch (cleanupError) { ... }
      }
      throw error;
    }
  }
  \<close>
  \<open>getDataFile\<close> is called before the \<open>try\<close>: its \<open>TypeError\<close> leaves at once.
  The message of the last line of the \<open>try\<close> reads \<open>data.log.length\<close>, which
  throws when \<open>data.log\<close> is \<open>undefined\<close> or \<open>null\<close>; printing has no other
  effect.
\<close>

definition writeData_try ::
  "string \<Rightarrow> string \<Rightarrow> string \<Rightarrow> jsval \<Rightarrow> faults \<Rightarrow> files \<Rightarrow> (error + unit) \<times> files" where
  "writeData_try dataFile tempFile backupFile data flt fs =
     (if \<not> truthy data \<or> typeof data \<noteq> TObject then (Inl InvalidData, fs)
      else
        case (if existsSync dataFile fs then copyFileSync dataFile backupFile flt fs
              else (Inr (), fs)) of
          (Inl e, fs1) \<Rightarrow> (Inl e, fs1)
        | (Inr u, fs1) \<Rightarrow>
            (case writeFileSync tempFile (JSON_stringify data) flt fs1 of
               (Inl e, fs2) \<Rightarrow> (Inl e, fs2)
             | (Inr u, fs2) \<Rightarrow>
                 (case renameSync tempFile dataFile flt fs2 of
                    (Inl e, fs3) \<Rightarrow> (Inl e, fs3)
                  | (Inr u, fs3) \<Rightarrow>
                      (case get_prop ''length'' (prop_of ''log'' data) of
                         Inl e \<Rightarrow> (Inl e, fs3)
                       | Inr n \<Rightarrow> (Inr (), fs3)))))"

definition writeData :: "jsval \<Rightarrow> jsval \<Rightarrow> faults \<Rightarrow> files \<Rightarrow> (error + unit) \<times> files" where
  "writeData accessCode data flt fs =
     (case getDataFile accessCode of
        Inl e \<Rightarrow> (Inl e, fs)
      | Inr dataFile \<Rightarrow>
          (let tempFile = dataFile @ ''.tmp''; backupFile = dataFile @ ''.backup'' in
           case writeData_try dataFile tempFile backupFile data flt fs of
             (Inr u, fs1) \<Rightarrow> (Inr u, fs1)
           | (Inl error, fs1) \<Rightarrow>
               (Inl error,
                if existsSync tempFile fs1 then snd (unlinkSync tempFile flt fs1) else fs1)))"

section \<open>Load: \<open>readData\<close>, \<open>initializeData\<close>, \<open>tryRestoreFromBackup\<close>\<close>

text \<open>
  \<^verbatim>\<open>
  function initializeData(accessCode) {
    const initialData = { accessCode: accessCode, count: 0, log: [],
                          lastIncrementTime: 0, pushSubscriptions: [] };
    writeData(accessCode, initialData);
    return initialData;
  }
  \<close>
\<close>

definition initialData :: "jsval \<Rightarrow> jsval" where
  "initialData accessCode =
     JObj [(''accessCode'', accessCode), (''count'', JNum 0), (''log'', JArr [] []),
           (''lastIncrementTime'', JNum 0), (''pushSubscriptions'', JArr [] [])]"

definition initializeData :: "jsval \<Rightarrow> faults \<Rightarrow> files \<Rightarrow> (error + jsval) \<times> files" where
  "initializeData accessCode flt fs =
     (case writeData accessCode (initialData accessCode) flt fs of
        (Inl e, fs1) \<Rightarrow> (Inl e, fs1)
      | (Inr u, fs1) \<Rightarrow> (Inr (initialData accessCode), fs1))"

text \<open>
  \<^verbatim>\<open>
  function tryRestoreFromBackup(accessCode) {
    const dataFile = getDataFile(accessCode);
    const backupFile = dataFile + '.backup';
    try {
      if (fs.existsSync(backupFile)) {
        const backupData = fs.readFileSync(backupFile, 'utf8');
        return JSON.parse(backupData);
      }
    } catch (error) { ... }
    return null;
  }
  \<close>
\<close>

definition tryRestoreFromBackup :: "jsval \<Rightarrow> faults \<Rightarrow> files \<Rightarrow> error + jsval" where
  "tryRestoreFromBackup accessCode flt fs =
     (case getDataFile accessCode of
        Inl e \<Rightarrow> Inl e
      | Inr dataFile \<Rightarrow>
          (let backupFile = dataFile @ ''.backup'' in
           if existsSync backupFile fs then
             (case readFileSync backupFile flt fs of
                Inl e \<Rightarrow> Inr JNull
              | Inr backupData \<Rightarrow>
                  (case JSON_parse backupData of Inl e \<Rightarrow> Inr JNull | Inr v \<Rightarrow> Inr v))
           else Inr JNull))"

text \<open>
  \<^verbatim>\<open>
  function readData(accessCode) {
    const dataFile = getDataFile(accessCode);
    try {
      if (!fs.existsSync(dataFile)) { return initializeData(accessCode); }
      const data = fs.readFileSync(dataFile, 'utf8');
      const parsed = JSON.parse(data);
      if (!parsed || typeof parsed !== 'object') { return initializeData(accessCode); }
      if (typeof parsed.count !== 'number') parsed.count = 0;
      if (!Array.isArray(parsed.log)) parsed.log = [];
      if (typeof parsed.lastIncrementTime !== 'number') parsed.lastIncrementTime = 0;
      if (!Array.isArray(parsed.pushSubscriptions)) parsed.pushSubscriptions = [];
      if (typeof parsed.accessCode !== 'string') parsed.accessCode = accessCode;
      return parsed;
    } catch (error) {
      const backupData = tryRestoreFromBackup(accessCode);
      if (backupData) { return backupData; }
      return initializeData(accessCode);
    }
  }
  \<close>
  The five assignments are \<open>ensure_fields\<close>; \<open>parsed\<close> is an object there, so its
  property reads do not throw.
\<close>

definition ensure_fields :: "jsval \<Rightarrow> jsval \<Rightarrow> jsval" where
  "ensure_fields accessCode parsed =
     (let p1 = (if typeof (prop_of ''count'' parsed) \<noteq> TNumber
                then set_prop ''count'' (JNum 0) parsed else parsed);
          p2 = (if \<not> isArray (prop_of ''log'' p1)
                then set_prop ''log'' (JArr [] []) p1 else p1);
          p3 = (if typeof (prop_of ''lastIncrementTime'' p2) \<noteq> TNumber
                then set_prop ''lastIncrementTime'' (JNum 0) p2 else p2);
          p4 = (if \<not> isArray (prop_of ''pushSubscriptions'' p3)
                then set_prop ''pushSubscriptions'' (JArr [] []) p3 else p3);
          p5 = (if typeof (prop_of ''accessCode'' p4) \<noteq> TString
                then set_prop ''accessCode'' accessCode p4 else p4)
      in p5)"

definition readData_try :: "jsval \<Rightarrow> string \<Rightarrow> faults \<Rightarrow> files \<Rightarrow> (error + jsval) \<times> files" where
  "readData_try accessCode dataFile flt fs =
     (if \<not> existsSync dataFile fs then initializeData accessCode flt fs
      else
        case readFileSync dataFile flt fs of
          Inl e \<Rightarrow> (Inl e, fs)
        | Inr data \<Rightarrow>
            (case JSON_parse data of
               Inl e \<Rightarrow> (Inl e, fs)
             | Inr parsed \<Rightarrow>
                 if \<not> truthy parsed \<or> typeof parsed \<noteq> TObject
                 then initializeData accessCode flt fs
                 else (Inr (ensure_fields accessCode parsed), fs)))"

definition readData :: "jsval \<Rightarrow> faults \<Rightarrow> files \<Rightarrow> (error + jsval) \<times> files" where
  "readData accessCode flt fs =
     (case getDataFile accessCode of
        Inl e \<Rightarrow> (Inl e, fs)
      | Inr dataFile \<Rightarrow>
          (case readData_try accessCode dataFile flt fs of
             (Inr data, fs1) \<Rightarrow> (Inr data, fs1)
           | (Inl error, fs1) \<Rightarrow>
               (case tryRestoreFromBackup accessCode flt fs1 of
                  Inl e \<Rightarrow> (Inl e, fs1)
                | Inr backupData \<Rightarrow>
                    if truthy backupData then (Inr backupData, fs1)
                    else initializeData accessCode flt fs1)))"

section \<open>Numbers and strings in the handlers\<close>

text \<open>
  \<open>Number.prototype.toString\<close> of a safe integer is its decimal numeral
  (\<open>digit_char\<close> is only applied to a digit, a number below ten); larger numbers are
  printed from their shortest digits, and in exponent notation from \<open>1e21\<close> on, which
  is left out (\<open>None\<close>). \<open>ToString\<close> is the conversion the language applies where
  a string is needed (here: to the argument of \<open>parseInt\<close>); an array is the join of its
  elements by commas, \<open>null\<close> and \<open>undefined\<close> elements being empty.
\<close>

definition digit_char :: "nat \<Rightarrow> char" where
  "digit_char d = ''0123456789'' ! d"

fun string_of_nat :: "nat \<Rightarrow> string" where
  "string_of_nat n =
     (if n < 10 then [digit_char n] else string_of_nat (n div 10) @ [digit_char (n mod 10)])"

declare string_of_nat.simps [simp del]

definition string_of_int :: "int \<Rightarrow> string" where
  "string_of_int i = (if i < 0 then CHR ''-'' # string_of_nat (nat (- i)) else string_of_nat (nat i))"

definition Number_toString :: "int \<Rightarrow> string option" where
  "Number_toString n = (if safe_integer n then Some (string_of_int n) else None)"

fun join :: "string \<Rightarrow> string list \<Rightarrow> string" where
  "join sep [] = []"
| "join sep [x] = x"
| "join sep (x # y # ys) = x @ sep @ join sep (y # ys)"

fun ToString :: "jsval \<Rightarrow> string option" where
  "ToString JUndefined = Some ''undefined''"
| "ToString JNull = Some ''null''"
| "ToString (JBool b) = Some (if b then ''true'' else ''false'')"
| "ToString (JNum n) = Number_toString n"
| "ToString JNaN = Some ''NaN''"
| "ToString (JStr s) = Some s"
| "ToString (JArr xs ps) =
     map_option (join '','')
       (those (map (\<lambda>x. if nullish x then Some [] else ToString x) xs))"
| "ToString (JObj kvs) = Some ''[object Object]''"

text \<open>
  \<open>parseInt(string)\<close> with no radix: leading white space is dropped (of the 8-bit
  characters: tab, line feed, vertical tab, form feed, carriage return, space, no-break
  space), then a sign, then \<open>0x\<close> or \<open>0X\<close>, which selects radix 16; the longest run
  of digits of the radix is the number, and \<open>NaN\<close> when the run is empty. The result is
  the double nearest to the number: the number itself when it is a safe integer, and left
  out (\<open>None\<close>) otherwise (beyond twenty digits the language leaves the digits to the
  implementation). \<open>digit_of\<close> is the value of a digit character, and 36 for any other
  character.
\<close>

definition StrWhiteSpaceChar :: "char \<Rightarrow> bool" where
  "StrWhiteSpaceChar c = ((of_char c :: nat) \<in> {9, 10, 11, 12, 13, 32, 160})"

definition digit_of :: "char \<Rightarrow> nat" where
  "digit_of c =
     (let n = (of_char c :: nat) in
        if 48 \<le> n \<and> n \<le> 57 then n - 48
        else if 97 \<le> n \<and> n \<le> 122 then n - 87
        else if 65 \<le> n \<and> n \<le> 90 then n - 55
        else 36)"

definition parseInt_string :: "string \<Rightarrow> jsval option" where
  "parseInt_string inputString =
     (let S = dropWhile StrWhiteSpaceChar inputString;
          sign = (if take 1 S = ''-'' then - 1 else (1 :: int));
          S1 = (if take 1 S = ''+'' \<or> take 1 S = ''-'' then drop 1 S else S);
          hex = (take 2 S1 = ''0x'' \<or> take 2 S1 = ''0X'');
          R = (if hex then 16 else (10 :: nat));
          S2 = (if hex then drop 2 S1 else S1);
          Z = takeWhile (\<lambda>c. digit_of c < R) S2;
          mathInt = sign * int (foldl (\<lambda>a c. a * R + digit_of c) 0 Z)
      in if Z = [] then Some JNaN
         else if safe_integer mathInt then Some (JNum mathInt)
         else None)"

definition parseInt :: "jsval \<Rightarrow> jsval option" where
  "parseInt v = (case ToString v of None \<Rightarrow> None | Some inputString \<Rightarrow> parseInt_string inputString)"

section \<open>The handlers\<close>

text \<open>
  What a handler sends: \<open>res.json(data)\<close>, the 429 with its \<open>remainingTime\<close>, the
  404, or, when the handler throws, the 500 of the framework. \<open>Unmodelled\<close> stands for
  a request whose course depends on a conversion of the language that this model leaves
  out: arithmetic on a \<open>count\<close> or \<open>lastIncrementTime\<close> that is not a number (only
  a backup restored without checks can hold one), arithmetic whose operands or result are
  not safe integers, where doubles round, a sort whose comparator returns \<open>NaN\<close>,
  where the language leaves the order to the implementation, and a sort of an array with
  an \<open>undefined\<close> element (no JSON text parses to one), which the comparator is not
  called on.
\<close>

datatype response = Status200 jsval | Status429 int | Status404 | Status500 error | Unmodelled

definition RATE_LIMIT_MS :: int where
  "RATE_LIMIT_MS = 20000"

text \<open>
  \<^verbatim>\<open>
  app.post('/api/increment', (req, res) => {
    const data = readData();
    const now = Date.now();
    const timeSinceLastIncrement = now - data.lastIncrementTime;
    const RATE_LIMIT_MS = 20000;
    if (timeSinceLastIncrement < RATE_LIMIT_MS) {
      const remainingTime = Math.ceil((RATE_LIMIT_MS - timeSinceLastIncrement) / 1000);
      return res.status(429).json({ error: 'Rate limited', remainingTime: remainingTime, ... });
    }
    data.count += 1;
    data.lastIncrementTime = now;
    const timestamp = new Date().toLocaleString();
    const id = Date.now().toString();
    const username = req.username || 'Anonymous';
    data.log.unshift({ id: id, timestamp: timestamp, count: data.count, username: username });
    if (data.log.length > 20) {
      data.log = data.log.slice(0, 20);
    }
    writeData(data);
    sendPushNotifications(req.accessCode, ...).catch(...);
    res.json(data);
  });
  \<close>
  The clock is read three times: \<open>now\<close>, the text \<open>timestamp\<close> and the second
  \<open>Date.now()\<close> of the id are inputs of the model. \<open>increment\<close> is the handler
  between \<open>readData()\<close> and \<open>writeData(data)\<close>: it yields the response of an early
  return (\<open>Inl\<close>) or the state to write and send (\<open>Inr\<close>). \<open>rate_limit\<close> is the
  check of the window, with its early return. \<open>NaN < 20000\<close> is false and
  \<open>NaN + 1\<close> is \<open>NaN\<close>. On safe integers the subtractions and the addition are
  exact, and so is the rounded-up quotient by 1000. \<open>slice\<close> makes a new array,
  without the named properties of the old one.
\<close>

definition unshift_entry :: "jsval \<Rightarrow> jsval \<Rightarrow> response + jsval" where
  "unshift_entry entry data =
     (case prop_of ''log'' data of
        JArr entries ps \<Rightarrow>
          (let data1 = set_prop ''log'' (JArr (entry # entries) ps) data in
           if length (entry # entries) > 20
           then Inr (set_prop ''log'' (JArr (take 20 (entry # entries)) []) data1)
           else Inr data1)
      | _ \<Rightarrow> Inl (Status500 TypeError))"

definition minus_exact :: "int \<Rightarrow> int \<Rightarrow> int option" where
  "minus_exact a b =
     (if safe_integer a \<and> safe_integer b \<and> safe_integer (a - b) then Some (a - b) else None)"

definition add_one :: "jsval \<Rightarrow> jsval option" where
  "add_one v =
     (case v of
        JNum c \<Rightarrow> if safe_integer c then Some (JNum (c + 1)) else None
      | JNaN \<Rightarrow> Some JNaN
      | _ \<Rightarrow> None)"

definition rate_limit :: "int \<Rightarrow> jsval \<Rightarrow> response + unit" where
  "rate_limit now lastIncrementTime =
     (case lastIncrementTime of
        JNum t \<Rightarrow>
          (case minus_exact now t of
             None \<Rightarrow> Inl Unmodelled
           | Some timeSinceLastIncrement \<Rightarrow>
               if timeSinceLastIncrement < RATE_LIMIT_MS
               then (case minus_exact RATE_LIMIT_MS timeSinceLastIncrement of
                       None \<Rightarrow> Inl Unmodelled
                     | Some remaining \<Rightarrow> Inl (Status429 \<lceil>real_of_int remaining / 1000\<rceil>))
               else Inr ())
      | JNaN \<Rightarrow> Inr ()
      | _ \<Rightarrow> Inl Unmodelled)"

definition allow_increment :: "jsval \<Rightarrow> int \<Rightarrow> string \<Rightarrow> int \<Rightarrow> jsval \<Rightarrow> jsval \<Rightarrow> response + jsval" where
  "allow_increment data now timestamp now_id req_username count1 =
     (case Number_toString now_id of
        None \<Rightarrow> Inl Unmodelled
      | Some entry_id \<Rightarrow>
          if \<not> safe_integer now then Inl Unmodelled
          else
            (let data1 = set_prop ''count'' count1 data;
                 data2 = set_prop ''lastIncrementTime'' (JNum now) data1;
                 username = (if truthy req_username then req_username else JStr ''Anonymous'')
             in unshift_entry
                  (JObj [(''id'', JStr entry_id), (''timestamp'', JStr timestamp),
                         (''count'', prop_of ''count'' data2), (''username'', username)])
                  data2))"

definition increment :: "jsval \<Rightarrow> int \<Rightarrow> string \<Rightarrow> int \<Rightarrow> jsval \<Rightarrow> response + jsval" where
  "increment data now timestamp now_id req_username =
     (if nullish data then Inl (Status500 TypeError)
      else
        case rate_limit now (prop_of ''lastIncrementTime'' data) of
          Inl r \<Rightarrow> Inl r
        | Inr u \<Rightarrow>
            (case add_one (prop_of ''count'' data) of
               Some count1 \<Rightarrow> allow_increment data now timestamp now_id req_username count1
             | None \<Rightarrow> Inl Unmodelled))"

text \<open>
  The handler calls \<open>readData()\<close> with no argument, so \<open>accessCode\<close> is
  \<open>undefined\<close> there, and \<open>writeData(data)\<close> with one argument, so the state is the
  parameter \<open>accessCode\<close> and the parameter \<open>data\<close> is \<open>undefined\<close>.
  \<open>sendPushNotifications\<close> runs after the write and does not touch the response; push
  delivery is outside this model.
\<close>

definition api_increment ::
  "faults \<Rightarrow> int \<Rightarrow> string \<Rightarrow> int \<Rightarrow> jsval \<Rightarrow> files \<Rightarrow> response \<times> files" where
  "api_increment flt now timestamp now_id req_username fs =
     (case readData JUndefined flt fs of
        (Inl e, fs1) \<Rightarrow> (Status500 e, fs1)
      | (Inr data, fs1) \<Rightarrow>
          (case increment data now timestamp now_id req_username of
             Inl r \<Rightarrow> (r, fs1)
           | Inr data1 \<Rightarrow>
               (case writeData data1 JUndefined flt fs1 of
                  (Inl e, fs2) \<Rightarrow> (Status500 e, fs2)
                | (Inr u, fs2) \<Rightarrow> (Status200 data1, fs2))))"

text \<open>
  \<^verbatim>\<open>
  app.delete('/api/log/:id', (req, res) => {
    const data = readData();
    const logId = req.params.id;
    const logIndex = data.log.findIndex(entry => entry.id === logId);
    if (logIndex !== -1) {
      data.log.splice(logIndex, 1);
      data.count = data.log.length;
      if (data.log.length > 0) {
        const sortedLog = [...data.log].sort((a, b) => parseInt(b.id) - parseInt(a.id));
        data.lastIncrementTime = parseInt(sortedLog[0].id);
      } else {
        data.lastIncrementTime = 0;
      }
      writeData(data);
      res.json(data);
    } else {
      res.status(404).json({ error: 'Log entry not found' });
    }
  });
  \<close>
  \<open>findIndex\<close> yields the first index whose entry has the id (a string, compared by
  \<open>===\<close>), and reading \<open>entry.id\<close> throws on a \<open>null\<close> entry. The sort is
  stable and its comparator orders by descending \<open>parseInt\<close> of the ids; the comparator
  reads the id of every entry when there are two or more (none of them \<open>undefined\<close>),
  and \<open>sortedLog[0].id\<close> reads that of the only one otherwise. The difference of two
  safe integers has the sign of its double, so the order is that of the integers.
\<close>

fun findIndex_id :: "string \<Rightarrow> jsval list \<Rightarrow> error + nat option" where
  "findIndex_id logId [] = Inr None"
| "findIndex_id logId (entry # rest) =
     (if nullish entry then Inl TypeError
      else if prop_of ''id'' entry = JStr logId then Inr (Some 0)
      else case findIndex_id logId rest of
             Inl e \<Rightarrow> Inl e
           | Inr None \<Rightarrow> Inr None
           | Inr (Some i) \<Rightarrow> Inr (Some (Suc i)))"

definition splice1 :: "nat \<Rightarrow> 'a list \<Rightarrow> 'a list" where
  "splice1 i xs = take i xs @ drop (Suc i) xs"

definition id_number :: "jsval \<Rightarrow> jsval option" where
  "id_number entry = parseInt (prop_of ''id'' entry)"

fun number_value :: "jsval option \<Rightarrow> int" where
  "number_value (Some (JNum n)) = n"
| "number_value v = 0"

definition recalculate :: "jsval list \<Rightarrow> response + jsval" where
  "recalculate entries =
     (if length entries > 0 then
        (if list_ex (\<lambda>entry. entry = JUndefined) entries then Inl Unmodelled
         else if list_ex nullish entries then Inl (Status500 TypeError)
         else if list_ex (\<lambda>entry. id_number entry = None) entries then Inl Unmodelled
         else if length entries \<ge> 2 \<and> list_ex (\<lambda>entry. id_number entry = Some JNaN) entries
         then Inl Unmodelled
         else
           case sort_key (\<lambda>entry. - number_value (id_number entry)) entries of
             [] \<Rightarrow> Inl (Status500 TypeError)
           | newest # rest \<Rightarrow>
               (case id_number newest of
                  None \<Rightarrow> Inl Unmodelled
                | Some lastIncrementTime \<Rightarrow> Inr lastIncrementTime))
      else Inr (JNum 0))"

definition delete_entry :: "jsval \<Rightarrow> string \<Rightarrow> response + jsval" where
  "delete_entry data logId =
     (case prop_of ''log'' data of
        JArr entries ps \<Rightarrow>
          (case findIndex_id logId entries of
             Inl e \<Rightarrow> Inl (Status500 e)
           | Inr None \<Rightarrow> Inl Status404
           | Inr (Some logIndex) \<Rightarrow>
               (let remaining = splice1 logIndex entries;
                    data1 = set_prop ''log'' (JArr remaining ps) data;
                    data2 = set_prop ''count'' (JNum (int (length remaining))) data1
                in case recalculate remaining of
                     Inl r \<Rightarrow> Inl r
                   | Inr lastIncrementTime \<Rightarrow>
                       Inr (set_prop ''lastIncrementTime'' lastIncrementTime data2)))
      | _ \<Rightarrow> Inl (Status500 TypeError))"

definition api_delete_log :: "faults \<Rightarrow> string \<Rightarrow> files \<Rightarrow> response \<times> files" where
  "api_delete_log flt logId fs =
     (case readData JUndefined flt fs of
        (Inl e, fs1) \<Rightarrow> (Status500 e, fs1)
      | (Inr data, fs1) \<Rightarrow>
          (case delete_entry data logId of
             Inl r \<Rightarrow> (r, fs1)
           | Inr data1 \<Rightarrow>
               (case writeData data1 JUndefined flt fs1 of
                  (Inl e, fs2) \<Rightarrow> (Status500 e, fs2)
                | (Inr u, fs2) \<Rightarrow> (Status200 data1, fs2))))"

section \<open>The single-room server\<close>

text \<open>
  The repository also holds the server as it was before rooms: one data file, and
  \<open>readData()\<close>, \<open>initializeData()\<close>, \<open>tryRestoreFromBackup()\<close> and
  \<open>writeData(data)\<close> without an access code. Their bodies are those above with
  \<open>DATA_FILE\<close> for the room's file; \<open>readData\<close> ensures \<open>count\<close>, \<open>log\<close>
  and \<open>lastIncrementTime\<close> only, the initial state has these three fields, and a log
  entry has no \<open>username\<close>. The delete handler is the same text; here its calls fit
  the functions they call.
  \<^verbatim>\<open>
  const DATA_FILE = path.join(__dirname, 'counter-data.json');
  function readData() { try { if (!fs.existsSync(DATA_FILE)) { return initializeData(); } ...
      if (typeof parsed.count !== 'number') parsed.count = 0;
      if (!Array.isArray(parsed.log)) parsed.log = [];
      if (typeof parsed.lastIncrementTime !== 'number') parsed.lastIncrementTime = 0;
      return parsed;
    } catch (error) { const backupData = tryRestoreFromBackup(); ... } }
  function writeData(data) { const tempFile = DATA_FILE + '.tmp'; ... }
  app.post('/api/increment', (req, res) => { const data = readData(); ...
      data.log.unshift({ id: id, timestamp: timestamp, count: data.count }); ...
      writeData(data); res.json(data); });
  app.delete('/api/log/:id', (req, res) => { const data = readData(); ... writeData(data); ... });
  \<close>
\<close>

definition DATA_FILE :: string where
  "DATA_FILE = ''counter-data.json''"

definition writeData_single :: "jsval \<Rightarrow> faults \<Rightarrow> files \<Rightarrow> (error + unit) \<times> files" where
  "writeData_single data flt fs =
     (let tempFile = DATA_FILE @ ''.tmp''; backupFile = DATA_FILE @ ''.backup'' in
      case writeData_try DATA_FILE tempFile backupFile data flt fs of
        (Inr u, fs1) \<Rightarrow> (Inr u, fs1)
      | (Inl error, fs1) \<Rightarrow>
          (Inl error,
           if existsSync tempFile fs1 then snd (unlinkSync tempFile flt fs1) else fs1))"

definition initialData_single :: jsval where
  "initialData_single =
     JObj [(''count'', JNum 0), (''log'', JArr [] []), (''lastIncrementTime'', JNum 0)]"

definition initializeData_single :: "faults \<Rightarrow> files \<Rightarrow> (error + jsval) \<times> files" where
  "initializeData_single flt fs =
     (case writeData_single initialData_single flt fs of
        (Inl e, fs1) \<Rightarrow> (Inl e, fs1)
      | (Inr u, fs1) \<Rightarrow> (Inr initialData_single, fs1))"

definition tryRestoreFromBackup_single :: "faults \<Rightarrow> files \<Rightarrow> jsval" where
  "tryRestoreFromBackup_single flt fs =
     (let backupFile = DATA_FILE @ ''.backup'' in
      if existsSync backupFile fs then
        (case readFileSync backupFile flt fs of
           Inl e \<Rightarrow> JNull
         | Inr backupData \<Rightarrow> (case JSON_parse backupData of Inl e \<Rightarrow> JNull | Inr v \<Rightarrow> v))
      else JNull)"

definition ensure_fields_single :: "jsval \<Rightarrow> jsval" where
  "ensure_fields_single parsed =
     (let p1 = (if typeof (prop_of ''count'' parsed) \<noteq> TNumber
                then set_prop ''count'' (JNum 0) parsed else parsed);
          p2 = (if \<not> isArray (prop_of ''log'' p1)
                then set_prop ''log'' (JArr [] []) p1 else p1);
          p3 = (if typeof (prop_of ''lastIncrementTime'' p2) \<noteq> TNumber
                then set_prop ''lastIncrementTime'' (JNum 0) p2 else p2)
      in p3)"

definition readData_try_single :: "faults \<Rightarrow> files \<Rightarrow> (error + jsval) \<times> files" where
  "readData_try_single flt fs =
     (if \<not> existsSync DATA_FILE fs then initializeData_single flt fs
      else
        case readFileSync DATA_FILE flt fs of
          Inl e \<Rightarrow> (Inl e, fs)
        | Inr data \<Rightarrow>
            (case JSON_parse data of
               Inl e \<Rightarrow> (Inl e, fs)
             | Inr parsed \<Rightarrow>
                 if \<not> truthy parsed \<or> typeof parsed \<noteq> TObject
                 then initializeData_single flt fs
                 else (Inr (ensure_fields_single parsed), fs)))"

definition readData_single :: "faults \<Rightarrow> files \<Rightarrow> (error + jsval) \<times> files" where
  "readData_single flt fs =
     (case readData_try_single flt fs of
        (Inr data, fs1) \<Rightarrow> (Inr data, fs1)
      | (Inl error, fs1) \<Rightarrow>
          (let backupData = tryRestoreFromBackup_single flt fs1 in
           if truthy backupData then (Inr backupData, fs1)
           else initializeData_single flt fs1))"

definition allow_increment_single :: "jsval \<Rightarrow> int \<Rightarrow> string \<Rightarrow> int \<Rightarrow> jsval \<Rightarrow> response + jsval" where
  "allow_increment_single data now timestamp now_id count1 =
     (case Number_toString now_id of
        None \<Rightarrow> Inl Unmodelled
      | Some entry_id \<Rightarrow>
          if \<not> safe_integer now then Inl Unmodelled
          else
            (let data1 = set_prop ''count'' count1 data;
                 data2 = set_prop ''lastIncrementTime'' (JNum now) data1
             in unshift_entry
                  (JObj [(''id'', JStr entry_id), (''timestamp'', JStr timestamp),
                         (''count'', prop_of ''count'' data2)])
                  data2))"

definition increment_single :: "jsval \<Rightarrow> int \<Rightarrow> string \<Rightarrow> int \<Rightarrow> response + jsval" where
  "increment_single data now timestamp now_id =
     (if nullish data then Inl (Status500 TypeError)
      else
        case rate_limit now (prop_of ''lastIncrementTime'' data) of
          Inl r \<Rightarrow> Inl r
        | Inr u \<Rightarrow>
            (case add_one (prop_of ''count'' data) of
               Some count1 \<Rightarrow> allow_increment_single data now timestamp now_id count1
             | None \<Rightarrow> Inl Unmodelled))"

definition api_increment_single ::
  "faults \<Rightarrow> int \<Rightarrow> string \<Rightarrow> int \<Rightarrow> files \<Rightarrow> response \<times> files" where
  "api_increment_single flt now timestamp now_id fs =
     (case readData_single flt fs of
        (Inl e, fs1) \<Rightarrow> (Status500 e, fs1)
      | (Inr data, fs1) \<Rightarrow>
          (case increment_single data now timestamp now_id of
             Inl r \<Rightarrow> (r, fs1)
           | Inr data1 \<Rightarrow>
               (case writeData_single data1 flt fs1 of
                  (Inl e, fs2) \<Rightarrow> (Status500 e, fs2)
                | (Inr u, fs2) \<Rightarrow> (Status200 data1, fs2))))"

definition api_delete_log_single :: "faults \<Rightarrow> string \<Rightarrow> files \<Rightarrow> response \<times> files" where
  "api_delete_log_single flt logId fs =
     (case readData_single flt fs of
        (Inl e, fs1) \<Rightarrow> (Status500 e, fs1)
      | (Inr data, fs1) \<Rightarrow>
          (case delete_entry data logId of
             Inl r \<Rightarrow> (r, fs1)
           | Inr data1 \<Rightarrow>
               (case writeData_single data1 flt fs1 of
                  (Inl e, fs2) \<Rightarrow> (Status500 e, fs2)
                | (Inr u, fs2) \<Rightarrow> (Status200 data1, fs2))))"

section \<open>Shapes of states\<close>

text \<open>
  A non-null object in the sense of \<open>typeof\<close>: an object or an array. A valid room
  state, as the data model has it: an object whose five fields have their types and that
  JSON can represent (no \<open>NaN\<close>, no \<open>undefined\<close>, no array with named properties).
\<close>

fun non_null_object :: "jsval \<Rightarrow> bool" where
  "non_null_object (JArr xs ps) = True"
| "non_null_object (JObj kvs) = True"
| "non_null_object v = False"

definition valid_state :: "jsval \<Rightarrow> bool" where
  "valid_state data =
     (case data of
        JObj kvs \<Rightarrow>
          typeof (prop_of ''count'' data) = TNumber
          \<and> isArray (prop_of ''log'' data)
          \<and> typeof (prop_of ''lastIncrementTime'' data) = TNumber
          \<and> isArray (prop_of ''pushSubscriptions'' data)
          \<and> typeof (prop_of ''accessCode'' data) = TString
          \<and> json_image data = data
      | _ \<Rightarrow> False)"

text \<open>
  A loaded state: what \<open>readData\<close> of the single-room server ensures of the document
  it returns.
\<close>

definition loaded :: "jsval \<Rightarrow> bool" where
  "loaded data = (non_null_object data \<and> typeof (prop_of ''count'' data) = TNumber
      \<and> isArray (prop_of ''log'' data) \<and> typeof (prop_of ''lastIncrementTime'' data) = TNumber)"

text \<open>
  A log entry whose id \<open>parseInt\<close> reads as a number.
\<close>

definition numeric_id :: "jsval \<Rightarrow> bool" where
  "numeric_id entry =
     (\<not> nullish entry \<and> (case id_number entry of Some (JNum n) \<Rightarrow> True | _ \<Rightarrow> False))"

text \<open>
  A decimal numeral: a string of digits, not empty.
\<close>

definition decimal :: "string \<Rightarrow> bool" where
  "decimal s = (s \<noteq> [] \<and> list_all (\<lambda>c. digit_of c < 10 \<and> \<not> StrWhiteSpaceChar c
      \<and> c \<noteq> CHR ''-'' \<and> c \<noteq> CHR ''+'' \<and> c \<noteq> CHR ''x'' \<and> c \<noteq> CHR ''X'') s)"

section \<open>Example states\<close>

text \<open>A room after one increment, as the handlers leave it on disk.\<close>

definition example_state :: jsval where
  "example_state =
     JObj [(''accessCode'', JStr ''room''), (''count'', JNum 1),
           (''log'', JArr [JObj [(''id'', JStr ''1700000000000''), (''timestamp'', JStr ''11/14/2023''),
                                 (''count'', JNum 1), (''username'', JStr ''Ann'')]] []),
           (''lastIncrementTime'', JNum 1700000000000), (''pushSubscriptions'', JArr [] [])]"




definition duplicate_state :: jsval where
  "duplicate_state =
     JObj [(''accessCode'', JStr ''room''), (''count'', JNum 3),
           (''log'', JArr [JObj [(''id'', JStr ''1700000040000''), (''count'', JNum 3)],
                           JObj [(''id'', JStr ''1700000000000''), (''count'', JNum 2)],
                           JObj [(''id'', JStr ''1700000000000''), (''count'', JNum 1)]] []),
           (''lastIncrementTime'', JNum 1700000040000), (''pushSubscriptions'', JArr [] [])]"

section \<open>Properties of the room resolver\<close>

lemma code_char_underscore: "code_char (CHR ''_'')"
  by (simp add: code_char_def)

text \<open>
  C9. For every access-code string the resolver's key has the length of the code, holds
  only characters of \<open>[A-Za-z0-9_-]\<close>, keeps each such character of the code in its
  place and has an underscore in the place of every other one; the data file's name is
  built from that key. Resolving is idempotent, and a code that is already canonical is
  its own key.
\<close>

theorem getDataFile_canonical:
  "getDataFile (JStr s) = Inr (''counter-data-'' @ sanitizedCode s @ ''.json'')
   \<and> length (sanitizedCode s) = length s
   \<and> (\<forall>c \<in> set (sanitizedCode s). code_char c)
   \<and> (\<forall>i < length s. sanitizedCode s ! i = (if code_char (s ! i) then s ! i else CHR ''_''))
   \<and> sanitizedCode (sanitizedCode s) = sanitizedCode s
   \<and> ((\<forall>c \<in> set s. code_char c) \<longrightarrow> sanitizedCode s = s)"
proof -
  have canon: "\<forall>c \<in> set (sanitizedCode s). code_char c"
    by (auto simp: sanitizedCode_def code_char_underscore)
  have fixed: "sanitizedCode t = t" if "\<forall>c \<in> set t. code_char c" for t
    using that by (simp add: sanitizedCode_def map_idI)
  have len: "length (sanitizedCode s) = length s"
    by (simp add: sanitizedCode_def)
  have nth: "\<forall>i < length s. sanitizedCode s ! i = (if code_char (s ! i) then s ! i else CHR ''_'')"
    by (simp add: sanitizedCode_def)
  have idem: "sanitizedCode (sanitizedCode s) = sanitizedCode s"
    using canon by (rule fixed)
  have name: "getDataFile (JStr s) = Inr (''counter-data-'' @ sanitizedCode s @ ''.json'')"
    by simp
  from name len canon nth idem fixed [of s] show ?thesis
    by blast
qed

theorem getDataFile_canonical_witness:
  "getDataFile (JStr ''my room/1'') = Inr ''counter-data-my_room_1.json''
   \<and> sanitizedCode ''my room/1'' = ''my_room_1''
   \<and> sanitizedCode ''my_room_1'' = ''my_room_1''
   \<and> list_all code_char ''my_room_1''"
  using getDataFile_canonical [of "''my room/1''"]
  by (simp add: sanitizedCode_def code_char_def)

section \<open>Properties of objects\<close>

lemma non_null_object_iff: "(truthy v \<and> typeof v = TObject) = non_null_object v"
  by (cases v) auto

lemma map_of_upd_same: "map_of (upd k x ps) k = Some x"
  by (induction ps) auto

lemma map_of_upd_other: "k \<noteq> k' \<Longrightarrow> map_of (upd k' x ps) k = map_of ps k"
  by (induction ps) auto

lemma prop_of_set_prop_same:
  "non_null_object v \<Longrightarrow> k \<noteq> ''length'' \<Longrightarrow> prop_of k (set_prop k x v) = x"
  by (cases v) (simp_all add: map_of_upd_same)

lemma prop_of_set_prop_other:
  "k \<noteq> k' \<Longrightarrow> prop_of k (set_prop k' x v) = prop_of k v"
  by (cases v) (simp_all add: map_of_upd_other)

lemma non_null_object_set_prop: "non_null_object (set_prop k x v) = non_null_object v"
  by (cases v) simp_all

section \<open>Properties of persist\<close>

lemma getDataFile_room: "getDataFile (JStr ''room'') = Inr ''counter-data-room.json''"
  by (simp add: sanitizedCode_def code_char_def)

lemmas fs_defs = existsSync_def readFileSync_def copyFileSync_def writeFileSync_def
  renameSync_def unlinkSync_def

lemma aux_names:
  "dataFile @ ''.tmp'' \<noteq> dataFile" "dataFile @ ''.backup'' \<noteq> dataFile"
  "dataFile @ ''.tmp'' \<noteq> dataFile @ ''.backup''"
  by simp_all

lemma writeData_try_invalid:
  "(fst (writeData_try d t b data flt fs) = Inl InvalidData) = (\<not> non_null_object data)"
  unfolding writeData_try_def non_null_object_iff [symmetric]
  by (auto simp: copyFileSync_def writeFileSync_def renameSync_def get_prop_def existsSync_def
      split: option.splits write_outcome.splits if_splits)

lemma writeData_try_canonical:
  assumes "writeData_try d t b data flt fs = (Inl e, fs1)" and "e \<noteq> TypeError"
    and "t \<noteq> d" and "b \<noteq> d"
  shows "fs1 d = fs d"
  using assms unfolding writeData_try_def
  by (auto simp: copyFileSync_def writeFileSync_def renameSync_def get_prop_def existsSync_def
      split: option.splits write_outcome.splits if_splits)

lemma writeData_result:
  assumes "getDataFile accessCode = Inr dataFile"
  shows "fst (writeData accessCode data flt fs) =
         fst (writeData_try dataFile (dataFile @ ''.tmp'') (dataFile @ ''.backup'') data flt fs)"
  using assms by (simp add: writeData_def Let_def split: prod.splits sum.splits)

lemma writeData_files_on_error:
  assumes "getDataFile accessCode = Inr dataFile"
    and "writeData accessCode data flt fs = (Inl e, fs')"
  shows "\<exists>fs1. writeData_try dataFile (dataFile @ ''.tmp'') (dataFile @ ''.backup'') data flt fs
               = (Inl e, fs1)
           \<and> fs' dataFile = fs1 dataFile
           \<and> (\<not> unlink_fails flt \<longrightarrow> fs' (dataFile @ ''.tmp'') = None)"
  using assms
  by (auto simp: writeData_def Let_def existsSync_def unlinkSync_def
      split: prod.splits sum.splits option.splits if_splits)

lemma writeData_success_file:
  assumes "getDataFile accessCode = Inr dataFile"
    and "writeData accessCode data flt fs = (Inr u, fs1)"
  shows "fs1 dataFile = Some (JSON_stringify data)"
  using assms
  by (auto simp: writeData_def writeData_try_def Let_def copyFileSync_def writeFileSync_def
      renameSync_def get_prop_def existsSync_def
      split: prod.splits sum.splits option.splits write_outcome.splits if_splits)

text \<open>
  C5, as the code has it. With a string for the room, \<open>writeData\<close> throws
  \<open>Invalid data structure\<close> exactly when the state is not a non-null object (an array
  is one). The error of the \<open>try\<close> block is the error \<open>writeData\<close> throws. When
  the validation, the backup copy, the write of the temporary file or the rename fails
  (the errors other than the \<open>TypeError\<close> of the log message, which comes after the
  rename), the canonical document is as it was, and the temporary file is gone unless
  removing it failed, which the code logs and ignores.
\<close>

theorem writeData_failure:
  assumes "getDataFile accessCode = Inr dataFile"
  shows "(fst (writeData accessCode data flt fs) = Inl InvalidData \<longleftrightarrow> \<not> non_null_object data)
     \<and> fst (writeData accessCode data flt fs) =
         fst (writeData_try dataFile (dataFile @ ''.tmp'') (dataFile @ ''.backup'') data flt fs)
     \<and> (\<forall>e fs'. writeData accessCode data flt fs = (Inl e, fs') \<and> e \<noteq> TypeError \<longrightarrow>
           fs' dataFile = fs dataFile
           \<and> (\<not> unlink_fails flt \<longrightarrow> fs' (dataFile @ ''.tmp'') = None))"
proof (intro conjI allI impI)
  show "(fst (writeData accessCode data flt fs) = Inl InvalidData) = (\<not> non_null_object data)"
    by (simp add: writeData_result [OF assms] writeData_try_invalid)
  show "fst (writeData accessCode data flt fs) =
         fst (writeData_try dataFile (dataFile @ ''.tmp'') (dataFile @ ''.backup'') data flt fs)"
    by (rule writeData_result [OF assms])
next
  fix e fs'
  assume h: "writeData accessCode data flt fs = (Inl e, fs') \<and> e \<noteq> TypeError"
  then obtain fs1 where
    t: "writeData_try dataFile (dataFile @ ''.tmp'') (dataFile @ ''.backup'') data flt fs
          = (Inl e, fs1)"
    and c: "fs' dataFile = fs1 dataFile"
    and u: "\<not> unlink_fails flt \<longrightarrow> fs' (dataFile @ ''.tmp'') = None"
    using writeData_files_on_error [OF assms] by blast
  from t h have "fs1 dataFile = fs dataFile"
    by (intro writeData_try_canonical
          [where t = "dataFile @ ''.tmp''" and b = "dataFile @ ''.backup''"])
       (auto simp: aux_names)
  with c show "fs' dataFile = fs dataFile" by simp
  show "fs' (dataFile @ ''.tmp'') = None" if "\<not> unlink_fails flt" using u that by simp
qed

theorem writeData_failure_witness:
  "getDataFile (JStr ''room'') = Inr ''counter-data-room.json''
   \<and> fst (writeData (JStr ''room'') JNull no_faults [''counter-data-room.json'' \<mapsto> Json (JObj [])]) = Inl InvalidData
   \<and> \<not> non_null_object JNull
   \<and> writeData (JStr ''room'') (JObj [(''log'', JArr [] [])]) (no_faults\<lparr>write_result := WriteError (Some Corrupt)\<rparr>)
        [''counter-data-room.json'' \<mapsto> Json (JObj [])]
      = (Inl IOError, [''counter-data-room.json'' \<mapsto> Json (JObj []),
                       ''counter-data-room.json.backup'' \<mapsto> Json (JObj [])])
   \<and> IOError \<noteq> TypeError
   \<and> \<not> unlink_fails (no_faults\<lparr>write_result := WriteError (Some Corrupt)\<rparr>)"
  using writeData_failure [OF getDataFile_room, of JNull no_faults "[''counter-data-room.json'' \<mapsto> Json (JObj [])]"]
  by (simp add: writeData_def writeData_try_def Let_def copyFileSync_def writeFileSync_def
      renameSync_def get_prop_def existsSync_def unlinkSync_def no_faults_def sanitizedCode_def code_char_def)

text \<open>
  The temporary file is not always removed: when the write fails after it has created the
  file and the removal fails as well, the file stays, and \<open>writeData\<close> throws the
  error of the write.
\<close>

theorem writeData_temp_left_behind:
  "writeData (JStr ''room'') (JObj [(''log'', JArr [] [])])
      (no_faults\<lparr>write_result := WriteError (Some Corrupt), unlink_fails := True\<rparr>) Map.empty
   = (Inl IOError, [''counter-data-room.json.tmp'' \<mapsto> Corrupt])"
  by (simp add: writeData_def writeData_try_def Let_def copyFileSync_def writeFileSync_def
      renameSync_def get_prop_def existsSync_def unlinkSync_def no_faults_def sanitizedCode_def code_char_def)

text \<open>
  The log message is inside the \<open>try\<close>, after the rename: a state without a
  \<open>log\<close> is written, and \<open>writeData\<close> throws all the same.
\<close>

lemma writeData_throws_after_rename:
  "writeData (JStr ''room'') (JObj []) no_faults Map.empty
   = (Inl TypeError, [''counter-data-room.json'' \<mapsto> Json (JObj [])])"
  by (auto simp: writeData_def writeData_try_def Let_def copyFileSync_def writeFileSync_def
      renameSync_def get_prop_def existsSync_def unlinkSync_def no_faults_def sanitizedCode_def code_char_def JSON_stringify_def fun_eq_iff)

section \<open>Properties of load\<close>

lemma readData_primary:
  assumes "getDataFile accessCode = Inr dataFile" and "fs dataFile = Some (Json parsed)"
    and "\<not> read_fails flt dataFile" and "non_null_object parsed"
  shows "readData accessCode flt fs = (Inr (ensure_fields accessCode parsed), fs)"
  using assms
  by (simp add: readData_def readData_try_def existsSync_def readFileSync_def
      non_null_object_iff [symmetric])

lemma ensure_fields_props:
  assumes "non_null_object parsed" and data_def: "data = ensure_fields accessCode parsed"
  shows "prop_of ''count'' data =
           (if typeof (prop_of ''count'' parsed) = TNumber then prop_of ''count'' parsed else JNum 0)"
    and "prop_of ''log'' data =
           (if isArray (prop_of ''log'' parsed) then prop_of ''log'' parsed else JArr [] [])"
    and "prop_of ''lastIncrementTime'' data =
           (if typeof (prop_of ''lastIncrementTime'' parsed) = TNumber
            then prop_of ''lastIncrementTime'' parsed else JNum 0)"
    and "prop_of ''pushSubscriptions'' data =
           (if isArray (prop_of ''pushSubscriptions'' parsed)
            then prop_of ''pushSubscriptions'' parsed else JArr [] [])"
    and "prop_of ''accessCode'' data =
           (if typeof (prop_of ''accessCode'' parsed) = TString
            then prop_of ''accessCode'' parsed else accessCode)"
    and "k \<notin> {''count'', ''log'', ''lastIncrementTime'', ''pushSubscriptions'', ''accessCode''}
         \<Longrightarrow> prop_of k data = prop_of k parsed"
    and "non_null_object data"
  using assms(1) unfolding data_def ensure_fields_def Let_def
  by (simp_all add: prop_of_set_prop_same prop_of_set_prop_other non_null_object_set_prop)

text \<open>
  C7. When the primary document is readable and parses to a non-null object, \<open>readData\<close>
  returns it with each of the required fields kept where it has its type and set to its
  default where it has not (\<open>count\<close> and \<open>lastIncrementTime\<close> to 0, \<open>log\<close> and
  \<open>pushSubscriptions\<close> to the empty array, \<open>accessCode\<close> to the room's code); every
  other field is as it was, and nothing is written. In particular the document
  \<open>{count: "5", log: null}\<close> yields count 0, an empty log and lastIncrementTime 0.
\<close>

theorem readData_coerces_fields:
  assumes "getDataFile accessCode = Inr dataFile" and "fs dataFile = Some (Json parsed)"
    and "\<not> read_fails flt dataFile" and "non_null_object parsed"
  shows "\<exists>data. readData accessCode flt fs = (Inr data, fs)
     \<and> non_null_object data
     \<and> prop_of ''count'' data =
           (if typeof (prop_of ''count'' parsed) = TNumber then prop_of ''count'' parsed else JNum 0)
     \<and> prop_of ''log'' data =
           (if isArray (prop_of ''log'' parsed) then prop_of ''log'' parsed else JArr [] [])
     \<and> prop_of ''lastIncrementTime'' data =
           (if typeof (prop_of ''lastIncrementTime'' parsed) = TNumber
            then prop_of ''lastIncrementTime'' parsed else JNum 0)
     \<and> prop_of ''pushSubscriptions'' data =
           (if isArray (prop_of ''pushSubscriptions'' parsed)
            then prop_of ''pushSubscriptions'' parsed else JArr [] [])
     \<and> prop_of ''accessCode'' data =
           (if typeof (prop_of ''accessCode'' parsed) = TString
            then prop_of ''accessCode'' parsed else accessCode)
     \<and> (\<forall>k. k \<notin> {''count'', ''log'', ''lastIncrementTime'', ''pushSubscriptions'', ''accessCode''}
            \<longrightarrow> prop_of k data = prop_of k parsed)
     \<and> (parsed = JObj [(''count'', JStr ''5''), (''log'', JNull)] \<longrightarrow>
          prop_of ''count'' data = JNum 0 \<and> prop_of ''log'' data = JArr [] []
          \<and> prop_of ''lastIncrementTime'' data = JNum 0)"
proof -
  let ?data = "ensure_fields accessCode parsed"
  note p = ensure_fields_props [OF assms(4) refl, where accessCode = accessCode]
  have "readData accessCode flt fs = (Inr ?data, fs)"
    using assms by (rule readData_primary)
  moreover have "parsed = JObj [(''count'', JStr ''5''), (''log'', JNull)] \<longrightarrow>
          prop_of ''count'' ?data = JNum 0 \<and> prop_of ''log'' ?data = JArr [] []
          \<and> prop_of ''lastIncrementTime'' ?data = JNum 0"
    by (simp add: ensure_fields_def)
  ultimately show ?thesis
    using p by blast
qed

theorem readData_coerces_fields_witness:
  "readData (JStr ''room'') no_faults
     [''counter-data-room.json'' \<mapsto> Json (JObj [(''count'', JStr ''5''), (''log'', JNull), (''note'', JStr ''kept'')])]
   = (Inr (JObj [(''count'', JNum 0), (''log'', JArr [] []), (''note'', JStr ''kept''),
                 (''lastIncrementTime'', JNum 0), (''pushSubscriptions'', JArr [] []),
                 (''accessCode'', JStr ''room'')]),
      [''counter-data-room.json'' \<mapsto> Json (JObj [(''count'', JStr ''5''), (''log'', JNull), (''note'', JStr ''kept'')])])"
  using readData_coerces_fields [OF getDataFile_room, of
      "[''counter-data-room.json'' \<mapsto> Json (JObj [(''count'', JStr ''5''), (''log'', JNull), (''note'', JStr ''kept'')])]"
      "JObj [(''count'', JStr ''5''), (''log'', JNull), (''note'', JStr ''kept'')]" no_faults]
  by (simp add: readData_def readData_try_def fs_defs no_faults_def ensure_fields_def
      sanitizedCode_def code_char_def)

lemma ensure_fields_valid: "valid_state data \<Longrightarrow> ensure_fields accessCode data = data"
  by (auto simp: valid_state_def ensure_fields_def Let_def split: jsval.splits)

lemma valid_state_object: "valid_state data \<Longrightarrow> non_null_object data \<and> json_image data = data"
  by (auto simp: valid_state_def split: jsval.splits)

text \<open>
  C8. When \<open>writeData\<close> has written a valid room state for a room, \<open>readData\<close> for
  that room, when it can read the document, returns that very state and writes nothing.
\<close>

theorem persist_load_roundtrip:
  assumes "getDataFile accessCode = Inr dataFile" and "valid_state data"
    and "writeData accessCode data flt fs = (Inr u, fs1)"
    and "\<not> read_fails flt' dataFile"
  shows "readData accessCode flt' fs1 = (Inr data, fs1)"
proof -
  have "fs1 dataFile = Some (Json data)"
    using writeData_success_file [OF assms(1,3)] valid_state_object [OF assms(2)]
    by (simp add: JSON_stringify_def)
  then have "readData accessCode flt' fs1 = (Inr (ensure_fields accessCode data), fs1)"
    using assms(1,4) valid_state_object [OF assms(2)] by (intro readData_primary) auto
  then show ?thesis by (simp add: ensure_fields_valid [OF assms(2)])
qed

theorem persist_load_roundtrip_witness:
  "getDataFile (JStr ''room'') = Inr ''counter-data-room.json''
   \<and> valid_state example_state
   \<and> writeData (JStr ''room'') example_state no_faults Map.empty
       = (Inr (), [''counter-data-room.json'' \<mapsto> Json example_state])
   \<and> \<not> read_fails no_faults ''counter-data-room.json''
   \<and> readData (JStr ''room'') no_faults [''counter-data-room.json'' \<mapsto> Json example_state]
       = (Inr example_state, [''counter-data-room.json'' \<mapsto> Json example_state])"
proof -
  have v: "valid_state example_state"
    by (simp add: valid_state_def example_state_def)
  have w: "writeData (JStr ''room'') example_state no_faults Map.empty
       = (Inr (), [''counter-data-room.json'' \<mapsto> Json example_state])"
    by (auto simp: writeData_def writeData_try_def Let_def fs_defs get_prop_def no_faults_def
        sanitizedCode_def code_char_def JSON_stringify_def example_state_def fun_eq_iff)
  have r: "\<not> read_fails no_faults ''counter-data-room.json''"
    by (simp add: no_faults_def)
  from persist_load_roundtrip [OF getDataFile_room v w r] getDataFile_room v w r
  show ?thesis by simp
qed

text \<open>
  C6, as the code has it. When the primary document exists and cannot be read or parsed,
  \<open>readData\<close> returns the backup's contents, unchecked, when the backup exists, can be
  read and parses to a truthy value; in every other case (no backup, an unreadable or
  unparseable one, or one that parses to \<open>null\<close>, \<open>false\<close>, \<open>0\<close> or the empty
  string) it falls back to \<open>initializeData\<close>.
\<close>

theorem readData_recovery:
  assumes "getDataFile accessCode = Inr dataFile" and "fs dataFile = Some c"
    and "read_fails flt dataFile \<or> JSON_parse c = Inl SyntaxError"
  shows "readData accessCode flt fs =
     (case fs (dataFile @ ''.backup'') of
        Some (Json v) \<Rightarrow>
          if \<not> read_fails flt (dataFile @ ''.backup'') \<and> truthy v then (Inr v, fs)
          else initializeData accessCode flt fs
      | _ \<Rightarrow> initializeData accessCode flt fs)"
  using assms
  by (auto simp: readData_def readData_try_def tryRestoreFromBackup_def existsSync_def
      readFileSync_def Let_def split: option.splits content.splits sum.splits)

theorem readData_recovery_witness:
  "getDataFile (JStr ''room'') = Inr ''counter-data-room.json''
   \<and> JSON_parse Corrupt = Inl SyntaxError
   \<and> readData (JStr ''room'') no_faults
        [''counter-data-room.json'' \<mapsto> Corrupt, ''counter-data-room.json.backup'' \<mapsto> Json example_state]
      = (Inr example_state,
         [''counter-data-room.json'' \<mapsto> Corrupt, ''counter-data-room.json.backup'' \<mapsto> Json example_state])"
proof -
  let ?fs = "[''counter-data-room.json'' \<mapsto> Corrupt,
              ''counter-data-room.json.backup'' \<mapsto> Json example_state]"
  have 1: "?fs ''counter-data-room.json'' = Some Corrupt" by simp
  have 2: "read_fails no_faults ''counter-data-room.json'' \<or> JSON_parse Corrupt = Inl SyntaxError"
    by simp
  have 3: "truthy example_state \<and> \<not> read_fails no_faults (''counter-data-room.json'' @ ''.backup'')"
    by (simp add: example_state_def no_faults_def)
  from readData_recovery [where fs = ?fs and flt = no_faults and c = Corrupt, OF getDataFile_room 1 2] 3 getDataFile_room show ?thesis
    by simp
qed

text \<open>
  A backup that parses, to \<open>null\<close>, is not returned: \<open>readData\<close> initializes the
  room afresh (and the write of the fresh state copies the corrupt primary over the
  backup).
\<close>

theorem readData_falsy_backup_ignored:
  "readData (JStr ''room'') no_faults
     [''counter-data-room.json'' \<mapsto> Corrupt, ''counter-data-room.json.backup'' \<mapsto> Json JNull]
   = (Inr (initialData (JStr ''room'')),
      [''counter-data-room.json'' \<mapsto> Json (initialData (JStr ''room'')),
       ''counter-data-room.json.backup'' \<mapsto> Corrupt])"
  by (auto simp: readData_def readData_try_def tryRestoreFromBackup_def initializeData_def
      writeData_def writeData_try_def Let_def fs_defs get_prop_def no_faults_def
      sanitizedCode_def code_char_def JSON_stringify_def initialData_def fun_eq_iff)

section \<open>Properties of the increment handler\<close>

lemma non_nullish: "non_null_object v \<Longrightarrow> \<not> nullish v"
  by (cases v) simp_all

lemma unshift_entry_props:
  assumes "non_null_object data" and "prop_of ''log'' data = JArr entries ps"
  shows "\<exists>data' ps'. unshift_entry entry data = Inr data'
      \<and> non_null_object data'
      \<and> prop_of ''log'' data' = JArr (take 20 (entry # entries)) ps'
      \<and> (\<forall>k. k \<noteq> ''log'' \<longrightarrow> prop_of k data' = prop_of k data)"
  using assms
  by (auto simp: unshift_entry_def Let_def prop_of_set_prop_same prop_of_set_prop_other
      non_null_object_set_prop)


lemma rate_limit_open:
  assumes "safe_integer now" and "safe_integer lastTime" and "safe_integer (now - lastTime)"
    and "now - lastTime \<ge> 20000"
  shows "rate_limit now (JNum lastTime) = Inr ()"
  using assms by (simp add: rate_limit_def minus_exact_def RATE_LIMIT_MS_def)

lemma rate_limit_closed:
  assumes "safe_integer now" and "safe_integer lastTime" and "safe_integer (now - lastTime)"
    and "now - lastTime < 20000" and "safe_integer (20000 - (now - lastTime))"
  shows "rate_limit now (JNum lastTime)
     = Inl (Status429 \<lceil>(20000 - real_of_int (now - lastTime)) / 1000\<rceil>)"
  using assms by (simp add: rate_limit_def minus_exact_def RATE_LIMIT_MS_def safe_integer_def)


text \<open>
  Within the window the handler answers 429 with the seconds that remain, rounded up,
  before it changes anything.
\<close>

lemma increment_rate_limited:
  assumes "\<not> nullish data" and "prop_of ''lastIncrementTime'' data = JNum lastTime"
    and "safe_integer now" and "safe_integer lastTime" and "safe_integer (now - lastTime)"
    and "now - lastTime < 20000" and "safe_integer (20000 - (now - lastTime))"
  shows "increment data now timestamp now_id req_username
     = Inl (Status429 \<lceil>(20000 - real_of_int (now - lastTime)) / 1000\<rceil>)"
  using assms(1,2) rate_limit_closed [OF assms(3-7)] by (simp add: increment_def)

section \<open>Ids are numerals of clock readings\<close>

text \<open>
  \<open>parseInt\<close> reads back the number \<open>toString\<close> wrote, so the id of an entry the
  increment handler made parses to the clock reading it was made from.
\<close>

lemma digit_cases: "d < 10 \<Longrightarrow> d \<in> {0, 1, 2, 3, 4, 5, 6, 7, 8, 9 :: nat}"
  by auto

lemma digit_char_props:
  assumes "d < 10"
  shows "digit_of (digit_char d) = d" and "\<not> StrWhiteSpaceChar (digit_char d)"
    and "digit_char d \<noteq> CHR ''-''" and "digit_char d \<noteq> CHR ''+''"
    and "digit_char d \<noteq> CHR ''x''" and "digit_char d \<noteq> CHR ''X''"
  using digit_cases [OF assms]
  by (auto simp: digit_char_def digit_of_def StrWhiteSpaceChar_def)

lemma decimal_string_of_nat: "decimal (string_of_nat n)"
proof (induction n rule: string_of_nat.induct)
  case (1 n)
  show ?case
  proof (cases "n < 10")
    case True
    then show ?thesis
      by (subst string_of_nat.simps) (simp add: decimal_def digit_char_props)
  next
    case False
    then have "decimal (string_of_nat (n div 10))" by (rule "1.IH")
    moreover have "n mod 10 < 10" by simp
    ultimately show ?thesis using False
      by (subst string_of_nat.simps) (simp add: decimal_def digit_char_props)
  qed
qed

lemma value_string_of_nat:
  "foldl (\<lambda>a c. a * 10 + digit_of c) 0 (string_of_nat n) = n"
proof (induction n rule: string_of_nat.induct)
  case (1 n)
  show ?case
  proof (cases "n < 10")
    case True
    then show ?thesis
      by (subst string_of_nat.simps) (simp add: digit_char_props)
  next
    case False
    then have "foldl (\<lambda>a c. a * 10 + digit_of c) 0 (string_of_nat (n div 10)) = n div 10"
      by (rule "1.IH")
    moreover have "n mod 10 < 10" by simp
    ultimately show ?thesis using False
      by (subst string_of_nat.simps) (simp add: digit_char_props)
  qed
qed

lemma parseInt_string_decimal:
  assumes "decimal s" and "safe_integer (int (foldl (\<lambda>a c. a * 10 + digit_of c) 0 s))"
  shows "parseInt_string s = Some (JNum (int (foldl (\<lambda>a c. a * 10 + digit_of c) 0 s)))"
    and "parseInt_string (CHR ''-'' # s)
       = Some (JNum (- int (foldl (\<lambda>a c. a * 10 + digit_of c) 0 s)))"
proof -
  from assms obtain c cs where s: "s = c # cs" by (cases s) (auto simp: decimal_def)
  from assms s have c: "\<not> StrWhiteSpaceChar c" "c \<noteq> CHR ''-''" "c \<noteq> CHR ''+''"
    by (auto simp: decimal_def)
  have x: "take 2 s \<noteq> ''0x''" "take 2 s \<noteq> ''0X''"
    using assms s by (cases cs; auto simp: decimal_def)+
  have tw: "takeWhile (\<lambda>c. digit_of c < 10) s = s"
    using assms by (auto simp: decimal_def list_all_iff takeWhile_eq_all_conv)
  have ne: "s \<noteq> []" using s by simp
  have dw: "dropWhile StrWhiteSpaceChar s = s" using s c by simp
  have t1: "take (Suc 0) s \<noteq> ''-''" "take (Suc 0) s \<noteq> ''+''" using s c by simp_all
  have m: "\<not> StrWhiteSpaceChar (CHR ''-'')" by (simp add: StrWhiteSpaceChar_def)
  have sf: "safe_integer (- int (foldl (\<lambda>a c. a * 10 + digit_of c) 0 s))"
    using assms(2) by (simp add: safe_integer_def)
  show "parseInt_string s = Some (JNum (int (foldl (\<lambda>a c. a * 10 + digit_of c) 0 s)))"
    using assms(2) by (simp add: parseInt_string_def Let_def dw t1 x tw ne)
  show "parseInt_string (CHR ''-'' # s)
       = Some (JNum (- int (foldl (\<lambda>a c. a * 10 + digit_of c) 0 s)))"
    using sf by (simp add: parseInt_string_def Let_def m x tw ne)
qed

lemma parseInt_string_of_int:
  assumes "safe_integer n"
  shows "parseInt_string (string_of_int n) = Some (JNum n)"
proof (cases "n < 0")
  case True
  have "safe_integer (int (foldl (\<lambda>a c. a * 10 + digit_of c) 0 (string_of_nat (nat (- n)))))"
    using assms True by (simp add: value_string_of_nat safe_integer_def)
  from parseInt_string_decimal(2) [OF decimal_string_of_nat this] True show ?thesis
    by (simp add: string_of_int_def value_string_of_nat)
next
  case False
  have "safe_integer (int (foldl (\<lambda>a c. a * 10 + digit_of c) 0 (string_of_nat (nat n))))"
    using assms False by (simp add: value_string_of_nat)
  from parseInt_string_decimal(1) [OF decimal_string_of_nat this] False show ?thesis
    by (simp add: string_of_int_def value_string_of_nat)
qed

lemma id_number_new_entry:
  "safe_integer n \<Longrightarrow> id_number (JObj ((''id'', JStr (string_of_int n)) # kvs)) = Some (JNum n)"
  by (simp add: id_number_def parseInt_def parseInt_string_of_int)

section \<open>Properties of the delete handler\<close>

lemmas delete_defs = delete_entry_def recalculate_def splice1_def id_number_def parseInt_def
  parseInt_string_def StrWhiteSpaceChar_def digit_of_def safe_integer_def

lemma findIndex_id_Some:
  "findIndex_id logId entries = Inr (Some i) \<Longrightarrow>
     i < length entries \<and> prop_of ''id'' (entries ! i) = JStr logId
     \<and> (\<forall>j < i. prop_of ''id'' (entries ! j) \<noteq> JStr logId)"
proof (induction entries arbitrary: i)
  case Nil
  then show ?case by simp
next
  case (Cons entry rest)
  show ?case
  proof (cases "prop_of ''id'' entry = JStr logId")
    case True
    with Cons.prems show ?thesis by (simp split: if_splits)
  next
    case False
    with Cons.prems obtain i' where i': "findIndex_id logId rest = Inr (Some i')" "i = Suc i'"
      by (auto split: if_splits sum.splits option.splits)
    from Cons.IH [OF i'(1)] False i'(2) show ?thesis
      by (auto simp: nth_Cons split: nat.splits)
  qed
qed

lemma findIndex_id_None:
  "findIndex_id logId entries = Inr None \<Longrightarrow> \<forall>e \<in> set entries. prop_of ''id'' e \<noteq> JStr logId"
  by (induction entries) (auto split: if_splits sum.splits option.splits)

lemma findIndex_id_total:
  "list_all (\<lambda>e. \<not> nullish e) entries \<Longrightarrow> \<exists>r. findIndex_id logId entries = Inr r"
  by (induction entries) (auto split: if_splits sum.splits option.splits)

lemma findIndex_id_present:
  assumes "list_all (\<lambda>e. \<not> nullish e) entries"
    and "\<exists>e \<in> set entries. prop_of ''id'' e = JStr logId"
  shows "\<exists>i. findIndex_id logId entries = Inr (Some i)"
proof -
  from findIndex_id_total [OF assms(1)] obtain r where r: "findIndex_id logId entries = Inr r"
    by blast
  show ?thesis
  proof (cases r)
    case None
    with r findIndex_id_None assms(2) show ?thesis by blast
  next
    case (Some i)
    with r show ?thesis by blast
  qed
qed

lemma sort_key_head:
  assumes "sort_key f xs = y # ys"
  shows "y \<in> set xs \<and> (\<forall>z \<in> set xs. f y \<le> f z)"
proof -
  have s: "sorted (map f (sort_key f xs))" by (rule sorted_sort_key)
  have m: "set (sort_key f xs) = set xs" by simp
  from m assms have "y \<in> set xs" by (metis list.set_intros(1))
  moreover have "\<forall>z \<in> set xs. f y \<le> f z"
  proof
    fix z assume "z \<in> set xs"
    with m assms have "z = y \<or> z \<in> set ys" by (metis set_ConsD)
    with s assms show "f y \<le> f z" by auto
  qed
  ultimately show ?thesis by blast
qed

lemma numeric_id_number: "numeric_id e \<Longrightarrow> \<exists>n. id_number e = Some (JNum n)"
  by (auto simp: numeric_id_def split: option.splits jsval.splits)

lemma recalculate_newest:
  assumes "list_all numeric_id entries"
  shows "recalculate entries =
     Inr (if entries = [] then JNum 0
          else JNum (Max ((\<lambda>e. number_value (id_number e)) ` set entries)))"
proof (cases "entries = []")
  case True
  then show ?thesis by (simp add: recalculate_def)
next
  case False
  let ?f = "\<lambda>entry. - number_value (id_number entry)"
  from False have "sort_key ?f entries \<noteq> []"
    by (metis length_sort list.size(3) length_0_conv)
  then obtain newest rest where srt: "sort_key ?f entries = newest # rest"
    by (cases "sort_key ?f entries") auto
  from sort_key_head [OF srt] have mem: "newest \<in> set entries"
    and le: "\<forall>z \<in> set entries. number_value (id_number z) \<le> number_value (id_number newest)"
    by auto
  from assms mem have "numeric_id newest" by (simp add: list_all_iff)
  from numeric_id_number [OF this] obtain n where n: "id_number newest = Some (JNum n)"
    by blast
  have mx: "Max ((\<lambda>e. number_value (id_number e)) ` set entries) = n"
  proof (rule Max_eqI)
    show "finite ((\<lambda>e. number_value (id_number e)) ` set entries)" by simp
    show "y \<le> n" if "y \<in> (\<lambda>e. number_value (id_number e)) ` set entries" for y
      using that le n by auto
    have "number_value (id_number newest) = n" using n by simp
    with mem show "n \<in> (\<lambda>e. number_value (id_number e)) ` set entries"
      by (metis (mono_tags, lifting) imageI)
  qed
  have g1: "\<not> list_ex nullish entries"
    using assms by (auto simp: list_all_iff list_ex_iff numeric_id_def)
  have g0: "\<not> list_ex (\<lambda>entry. entry = JUndefined) entries"
    using assms by (auto simp: list_all_iff list_ex_iff numeric_id_def)
  have g2: "\<not> list_ex (\<lambda>entry. id_number entry = None) entries"
    using assms numeric_id_number by (fastforce simp: list_all_iff list_ex_iff)
  have g3: "\<not> list_ex (\<lambda>entry. id_number entry = Some JNaN) entries"
    using assms numeric_id_number by (fastforce simp: list_all_iff list_ex_iff)
  show ?thesis
    using False g0 g1 g2 g3 srt n mx by (simp add: recalculate_def)
qed


lemma length_splice1: "i < length xs \<Longrightarrow> length (splice1 i xs) = length xs - 1"
  by (auto simp: splice1_def)

lemma set_splice1: "set (splice1 i xs) \<subseteq> set xs"
  by (auto simp: splice1_def dest: in_set_takeD in_set_dropD)

lemma splice1_empty: "i < length xs \<Longrightarrow> (splice1 i xs = []) = (length xs = 1)"
proof -
  assume a: "i < length xs"
  have "(splice1 i xs = []) = (length (splice1 i xs) = 0)" by simp
  also have "\<dots> = (length xs - 1 = 0)" using a by (simp only: length_splice1)
  also have "\<dots> = (length xs = 1)" using a by arith
  finally show ?thesis .
qed


lemma delete_entry_found:
  assumes "non_null_object data" and "prop_of ''log'' data = JArr entries ps"
    and "list_all numeric_id entries"
    and "\<exists>e \<in> set entries. prop_of ''id'' e = JStr logId"
  shows "\<exists>i data'. i < length entries \<and> prop_of ''id'' (entries ! i) = JStr logId
      \<and> (\<forall>j < i. prop_of ''id'' (entries ! j) \<noteq> JStr logId)
      \<and> delete_entry data logId = Inr data'
      \<and> prop_of ''log'' data' = JArr (splice1 i entries) ps
      \<and> prop_of ''count'' data' = JNum (int (length entries) - 1)
      \<and> prop_of ''lastIncrementTime'' data' =
           (if length entries = 1 then JNum 0
            else JNum (Max ((\<lambda>e. number_value (id_number e)) ` set (splice1 i entries))))
      \<and> (\<forall>k. k \<notin> {''count'', ''lastIncrementTime'', ''log''} \<longrightarrow> prop_of k data' = prop_of k data)"
proof -
  have nn: "list_all (\<lambda>e. \<not> nullish e) entries"
    using assms(3) by (simp add: list_all_iff numeric_id_def)
  from findIndex_id_present [OF nn assms(4)] obtain i where
    i: "findIndex_id logId entries = Inr (Some i)" by blast
  from findIndex_id_Some [OF i] have f1: "i < length entries"
    and f2: "prop_of ''id'' (entries ! i) = JStr logId"
    and f3: "\<forall>j < i. prop_of ''id'' (entries ! j) \<noteq> JStr logId"
    by simp_all
  define remaining where "remaining = splice1 i entries"
  define lastTime where "lastTime =
     (if length entries = 1 then JNum 0
      else JNum (Max ((\<lambda>e. number_value (id_number e)) ` set remaining)))"
  define data' where "data' = set_prop ''lastIncrementTime'' lastTime
        (set_prop ''count'' (JNum (int (length remaining)))
          (set_prop ''log'' (JArr remaining ps) data))"
  have sub: "set remaining \<subseteq> set entries"
    unfolding remaining_def by (rule set_splice1)
  have wf: "list_all numeric_id remaining"
    using assms(3) sub unfolding list_all_iff by blast
  have emp: "(remaining = []) = (length entries = 1)"
    unfolding remaining_def using f1 by (rule splice1_empty)
  have rc: "recalculate remaining = Inr lastTime"
    unfolding lastTime_def emp [symmetric] by (rule recalculate_newest [OF wf])
  have len: "int (length remaining) = int (length entries) - 1"
    unfolding remaining_def using f1 by (simp add: length_splice1)
  have run: "delete_entry data logId = Inr data'"
    unfolding delete_entry_def data'_def
    by (simp add: assms(2) i Let_def remaining_def [symmetric] rc)
  have p1: "prop_of ''log'' data' = JArr remaining ps"
    unfolding data'_def using assms(1)
    by (simp add: prop_of_set_prop_same prop_of_set_prop_other non_null_object_set_prop)
  have p2: "prop_of ''count'' data' = JNum (int (length entries) - 1)"
    unfolding data'_def len [symmetric] using assms(1)
    by (simp add: prop_of_set_prop_same prop_of_set_prop_other non_null_object_set_prop)
  have p3: "prop_of ''lastIncrementTime'' data' = lastTime"
    unfolding data'_def using assms(1)
    by (simp add: prop_of_set_prop_same prop_of_set_prop_other non_null_object_set_prop)
  have p4: "\<forall>k. k \<notin> {''count'', ''lastIncrementTime'', ''log''} \<longrightarrow> prop_of k data' = prop_of k data"
    unfolding data'_def by (simp add: prop_of_set_prop_other)
  show ?thesis
    apply (rule exI [of _ i])
    apply (rule exI [of _ data'])
    using f1 f2 f3 run p1 p2 p3 p4
    unfolding lastTime_def remaining_def
    apply (intro conjI)
           apply assumption+
    done
qed

lemma delete_entry_not_found:
  assumes "prop_of ''log'' data = JArr entries ps"
    and "list_all (\<lambda>e. \<not> nullish e) entries"
    and "\<forall>e \<in> set entries. prop_of ''id'' e \<noteq> JStr logId"
  shows "delete_entry data logId = Inl Status404"
proof -
  from findIndex_id_total [OF assms(2)] obtain r where r: "findIndex_id logId entries = Inr r"
    by blast
  have "r = None"
  proof (cases r)
    case (Some i)
    with r findIndex_id_Some [of logId entries i] assms(3) show ?thesis
      by (metis nth_mem)
  qed simp
  with r assms(1) show ?thesis by (simp add: delete_entry_def)
qed


text \<open>
  With the same id twice in the log, the entry nearer the front goes and the other stays;
  when the newest entry goes, \<open>lastIncrementTime\<close> falls to the largest id that is
  left.
\<close>

lemma delete_entry_duplicate_example:
  "delete_entry duplicate_state ''1700000000000''
   = Inr (JObj [(''accessCode'', JStr ''room''), (''count'', JNum 2),
           (''log'', JArr [JObj [(''id'', JStr ''1700000040000''), (''count'', JNum 3)],
                           JObj [(''id'', JStr ''1700000000000''), (''count'', JNum 1)]] []),
           (''lastIncrementTime'', JNum 1700000040000), (''pushSubscriptions'', JArr [] [])])"
  by (simp add: duplicate_state_def delete_defs Let_def)

lemma delete_entry_newest_example:
  "delete_entry duplicate_state ''1700000040000''
   = Inr (JObj [(''accessCode'', JStr ''room''), (''count'', JNum 2),
           (''log'', JArr [JObj [(''id'', JStr ''1700000000000''), (''count'', JNum 2)],
                           JObj [(''id'', JStr ''1700000000000''), (''count'', JNum 1)]] []),
           (''lastIncrementTime'', JNum 1700000000000), (''pushSubscriptions'', JArr [] [])])"
  by (simp add: duplicate_state_def delete_defs Let_def)

section \<open>Properties of the single-room server\<close>

text \<open>
  Where the calls pass what the functions take, the handlers do what their bodies compute:
  inside the window the increment answers 429 and no file changes; a delete of an id that
  is not in the log answers 404 and no file changes; a delete of an id that is, and an
  increment outside the window, write the state they computed over the document (the
  document before going to the backup) and send it.
\<close>

lemma ensure_fields_single_loaded: "loaded data \<Longrightarrow> ensure_fields_single data = data"
  by (simp add: loaded_def ensure_fields_single_def)

lemma readData_single_loaded:
  assumes "fs DATA_FILE = Some (Json data)" and "\<not> read_fails flt DATA_FILE" and "loaded data"
  shows "readData_single flt fs = (Inr data, fs)"
proof -
  have "truthy data \<and> typeof data = TObject"
    using assms(3) by (simp add: loaded_def non_null_object_iff)
  then show ?thesis
    using assms
    by (simp add: readData_single_def readData_try_single_def existsSync_def readFileSync_def
        ensure_fields_single_loaded)
qed

lemma api_increment_single_rate_limited:
  assumes "fs DATA_FILE = Some (Json data)" and "\<not> read_fails flt DATA_FILE" and "loaded data"
    and "prop_of ''lastIncrementTime'' data = JNum lastTime"
    and "safe_integer now" and "safe_integer lastTime" and "safe_integer (now - lastTime)"
    and "now - lastTime < 20000" and "safe_integer (20000 - (now - lastTime))"
  shows "api_increment_single flt now timestamp now_id fs
     = (Status429 \<lceil>(20000 - real_of_int (now - lastTime)) / 1000\<rceil>, fs)"
proof -
  have "\<not> nullish data" using assms(3) by (simp add: loaded_def non_nullish)
  then have "increment_single data now timestamp now_id
     = Inl (Status429 \<lceil>(20000 - real_of_int (now - lastTime)) / 1000\<rceil>)"
    using assms(4) rate_limit_closed [OF assms(5-9)] by (simp add: increment_single_def)
  then show ?thesis
    by (simp add: api_increment_single_def readData_single_loaded [where fs = fs, OF assms(1,2,3)])
qed

lemma api_delete_log_single_not_found:
  assumes "fs DATA_FILE = Some (Json data)" and "\<not> read_fails flt DATA_FILE" and "loaded data"
    and "prop_of ''log'' data = JArr entries ps"
    and "list_all (\<lambda>e. \<not> nullish e) entries"
    and "\<forall>e \<in> set entries. prop_of ''id'' e \<noteq> JStr logId"
  shows "api_delete_log_single flt logId fs = (Status404, fs)"
  by (simp add: api_delete_log_single_def readData_single_loaded [where fs = fs, OF assms(1,2,3)]
      delete_entry_not_found [OF assms(4,5,6)])

lemma isArray_cases: "isArray v \<Longrightarrow> \<exists>xs ps. v = JArr xs ps"
  by (cases v) simp_all

lemma writeData_single_success:
  assumes "non_null_object data" and "isArray (prop_of ''log'' data)"
    and "fs DATA_FILE = Some c"
    and "\<not> copy_fails flt" and "write_result flt = Written" and "\<not> rename_fails flt"
  shows "\<exists>fs'. writeData_single data flt fs = (Inr (), fs')
      \<and> fs' DATA_FILE = Some (Json (json_image data))
      \<and> fs' (DATA_FILE @ ''.backup'') = Some c
      \<and> fs' (DATA_FILE @ ''.tmp'') = None
      \<and> (\<forall>p. p \<notin> {DATA_FILE, DATA_FILE @ ''.backup'', DATA_FILE @ ''.tmp''} \<longrightarrow> fs' p = fs p)"
proof -
  from isArray_cases [OF assms(2)] obtain xs ps where lg: "prop_of ''log'' data = JArr xs ps"
    by blast
  have v: "truthy data \<and> typeof data = TObject"
    using assms(1) by (simp add: non_null_object_iff)
  show ?thesis
    using v lg assms(3-6)
    by (simp add: writeData_single_def writeData_try_def Let_def fs_defs get_prop_def
        JSON_stringify_def)
qed





lemma increment_single_result:
  assumes "non_null_object data" and "prop_of ''count'' data = JNum c"
    and "prop_of ''log'' data = JArr entries ps"
    and "increment_single data now timestamp now_id = Inr data'"
  shows "safe_integer c \<and> safe_integer now \<and> safe_integer now_id
     \<and> non_null_object data'
     \<and> prop_of ''count'' data' = JNum (c + 1)
     \<and> prop_of ''lastIncrementTime'' data' = JNum now
     \<and> (\<exists>ps'. prop_of ''log'' data' =
            JArr (take 20
                   (JObj [(''id'', JStr (string_of_int now_id)), (''timestamp'', JStr timestamp),
                          (''count'', JNum (c + 1))]
                    # entries)) ps')
     \<and> (\<forall>k. k \<notin> {''count'', ''lastIncrementTime'', ''log''} \<longrightarrow> prop_of k data' = prop_of k data)"
proof -
  let ?d2 = "set_prop ''lastIncrementTime'' (JNum now) (set_prop ''count'' (JNum (c + 1)) data)"
  let ?entry = "JObj [(''id'', JStr (string_of_int now_id)), (''timestamp'', JStr timestamp),
                      (''count'', JNum (c + 1))]"
  have obj: "non_null_object ?d2"
    using assms(1) by (simp add: non_null_object_set_prop)
  have lg: "prop_of ''log'' ?d2 = JArr entries ps"
    using assms(3) by (simp add: prop_of_set_prop_other)
  have cnt: "prop_of ''count'' ?d2 = JNum (c + 1)"
    using assms(1) by (simp add: prop_of_set_prop_other prop_of_set_prop_same non_null_object_set_prop)
  have lst: "prop_of ''lastIncrementTime'' ?d2 = JNum now"
    using assms(1) by (simp add: prop_of_set_prop_same non_null_object_set_prop)
  have oth: "k \<notin> {''count'', ''lastIncrementTime'', ''log''} \<Longrightarrow> prop_of k ?d2 = prop_of k data" for k
    by (simp add: prop_of_set_prop_other)
  from assms(2,4) cnt have sf: "safe_integer c \<and> safe_integer now \<and> safe_integer now_id"
    and run: "unshift_entry ?entry ?d2 = Inr data'"
    by (auto simp: increment_single_def add_one_def allow_increment_single_def Number_toString_def
        Let_def split: if_splits sum.splits option.splits)
  from unshift_entry_props [OF obj lg, of ?entry] run obtain ps' where
    u: "non_null_object data'"
       "prop_of ''log'' data' = JArr (take 20 (?entry # entries)) ps'"
       "\<forall>k. k \<noteq> ''log'' \<longrightarrow> prop_of k data' = prop_of k ?d2"
    by auto
  have "prop_of ''count'' data' = JNum (c + 1)" using u(3) cnt by simp
  moreover have "prop_of ''lastIncrementTime'' data' = JNum now" using u(3) lst by simp
  moreover have "\<forall>k. k \<notin> {''count'', ''lastIncrementTime'', ''log''} \<longrightarrow> prop_of k data' = prop_of k data"
    using u(3) oth by simp
  ultimately show ?thesis using sf u(1,2) by blast
qed

lemma increment_single_allowed:
  assumes "non_null_object data" and "prop_of ''count'' data = JNum c" and "safe_integer c"
    and "prop_of ''log'' data = JArr entries ps"
    and "prop_of ''lastIncrementTime'' data = JNum lastTime"
    and "safe_integer now" and "safe_integer lastTime" and "safe_integer (now - lastTime)"
    and "now - lastTime \<ge> 20000" and "safe_integer now_id"
  shows "\<exists>data'. increment_single data now timestamp now_id = Inr data'"
proof -
  let ?d2 = "set_prop ''lastIncrementTime'' (JNum now) (set_prop ''count'' (JNum (c + 1)) data)"
  have obj: "non_null_object ?d2"
    using assms(1) by (simp add: non_null_object_set_prop)
  have lg: "prop_of ''log'' ?d2 = JArr entries ps"
    using assms(4) by (simp add: prop_of_set_prop_other)
  have "\<exists>data'. unshift_entry entry ?d2 = Inr data'" for entry
    using unshift_entry_props [OF obj lg, of entry] by blast
  then show ?thesis
    using assms(1,2,3,5,6,10) rate_limit_open [OF assms(6,7,8,9)]
    by (simp add: increment_single_def non_nullish add_one_def allow_increment_single_def
        Number_toString_def Let_def)
qed

lemma increment_single_shape:
  assumes "non_null_object data" and "isArray (prop_of ''log'' data)"
    and "increment_single data now timestamp now_id = Inr data'"
  shows "non_null_object data' \<and> isArray (prop_of ''log'' data')"
proof -
  from isArray_cases [OF assms(2)] obtain entries ps where lg: "prop_of ''log'' data = JArr entries ps"
    by blast
  from assms(3) obtain entry count1 where
    run: "unshift_entry entry
            (set_prop ''lastIncrementTime'' (JNum now) (set_prop ''count'' count1 data)) = Inr data'"
    by (auto simp: increment_single_def allow_increment_single_def Let_def
        split: if_splits sum.splits option.splits)
  let ?d2 = "set_prop ''lastIncrementTime'' (JNum now) (set_prop ''count'' count1 data)"
  have obj: "non_null_object ?d2" using assms(1) by (simp add: non_null_object_set_prop)
  have lg2: "prop_of ''log'' ?d2 = JArr entries ps" using lg by (simp add: prop_of_set_prop_other)
  from unshift_entry_props [OF obj lg2, of entry] run show ?thesis by auto
qed

lemma api_increment_single_allowed:
  assumes "fs DATA_FILE = Some (Json data)" and "\<not> read_fails flt DATA_FILE" and "loaded data"
    and "increment_single data now timestamp now_id = Inr data'"
    and "\<not> copy_fails flt" and "write_result flt = Written" and "\<not> rename_fails flt"
  shows "\<exists>fs'. api_increment_single flt now timestamp now_id fs = (Status200 data', fs')
      \<and> fs' DATA_FILE = Some (Json (json_image data'))
      \<and> fs' (DATA_FILE @ ''.backup'') = Some (Json data)
      \<and> fs' (DATA_FILE @ ''.tmp'') = None"
proof -
  from assms(3) have obj: "non_null_object data" and arr: "isArray (prop_of ''log'' data)"
    by (simp_all add: loaded_def)
  from increment_single_shape [OF obj arr assms(4)]
  have "non_null_object data'" and "isArray (prop_of ''log'' data')" by simp_all
  from writeData_single_success [where fs = fs, OF this assms(1,5,6,7)] obtain fs' where
    w: "writeData_single data' flt fs = (Inr (), fs')"
    and f: "fs' DATA_FILE = Some (Json (json_image data'))"
       "fs' (DATA_FILE @ ''.backup'') = Some (Json data)"
       "fs' (DATA_FILE @ ''.tmp'') = None"
    by blast
  have "api_increment_single flt now timestamp now_id fs = (Status200 data', fs')"
    by (simp add: api_increment_single_def readData_single_loaded [where fs = fs, OF assms(1,2,3)]
        assms(4) w)
  with f show ?thesis by blast
qed



text \<open>
  Outside the window the increment of the single-room server writes and sends the state
  with the count one more, \<open>lastIncrementTime\<close> at \<open>now\<close>, and the new entry, whose
  id is the numeral of the handler's second clock reading, in front of the log, cut to 20
  entries.
\<close>

lemma api_increment_single_increments:
  assumes "fs DATA_FILE = Some (Json data)" and "\<not> read_fails flt DATA_FILE" and "loaded data"
    and "prop_of ''count'' data = JNum c" and "safe_integer c"
    and "prop_of ''log'' data = JArr entries ps"
    and "prop_of ''lastIncrementTime'' data = JNum lastTime"
    and "safe_integer now" and "safe_integer lastTime" and "safe_integer (now - lastTime)"
    and "now - lastTime \<ge> 20000" and "safe_integer now_id"
    and "\<not> copy_fails flt" and "write_result flt = Written" and "\<not> rename_fails flt"
  shows "\<exists>data' fs' ps'. api_increment_single flt now timestamp now_id fs = (Status200 data', fs')
      \<and> fs' DATA_FILE = Some (Json (json_image data'))
      \<and> fs' (DATA_FILE @ ''.backup'') = Some (Json data)
      \<and> prop_of ''count'' data' = JNum (c + 1)
      \<and> prop_of ''lastIncrementTime'' data' = JNum now
      \<and> prop_of ''log'' data' =
            JArr (take 20
                   (JObj [(''id'', JStr (string_of_int now_id)), (''timestamp'', JStr timestamp),
                          (''count'', JNum (c + 1))]
                    # entries)) ps'"
proof -
  from assms(3) have obj: "non_null_object data" by (simp add: loaded_def)
  from increment_single_allowed [OF obj assms(4,5,6,7,8,9,10,11,12)] obtain data' where
    i: "increment_single data now timestamp now_id = Inr data'" by blast
  from increment_single_result [OF obj assms(4,6) i] obtain ps' where
    p: "prop_of ''count'' data' = JNum (c + 1)" "prop_of ''lastIncrementTime'' data' = JNum now"
       "prop_of ''log'' data' =
            JArr (take 20
                   (JObj [(''id'', JStr (string_of_int now_id)), (''timestamp'', JStr timestamp),
                          (''count'', JNum (c + 1))]
                    # entries)) ps'"
    by blast
  from api_increment_single_allowed [where fs = fs, OF assms(1,2,3) i assms(13,14,15)]
  obtain fs' where
    a: "api_increment_single flt now timestamp now_id fs = (Status200 data', fs')"
       "fs' DATA_FILE = Some (Json (json_image data'))"
       "fs' (DATA_FILE @ ''.backup'') = Some (Json data)"
    by blast
  from a p show ?thesis by blast
qed

section \<open>Count and log length\<close>




section \<open>The handlers as they are called\<close>

text \<open>
  \<open>writeData(data)\<close> takes the state for the access code: it throws before it touches
  a file.
\<close>

lemma writeData_one_argument:
  "writeData (JObj kvs) JUndefined flt fs = (Inl TypeError, fs)"
  by (simp add: writeData_def)

text \<open>
  C2. Outside the rate-limit window the increment handler of the rooms server does not
  increment: the request ends in the \<open>TypeError\<close> of \<open>readData()\<close> and the 500 of
  the framework. For a room whose last increment was 30 seconds ago, the count stays, no
  entry is added, nothing is written and no state is sent.
\<close>

theorem api_increment_after_window_throws:
  "api_increment no_faults 1700000030000 ''11/14/2023, 10:13:50 PM'' 1700000030000 JUndefined
     [''counter-data-room.json'' \<mapsto> Json example_state]
   = (Status500 TypeError, [''counter-data-room.json'' \<mapsto> Json example_state])"
  by (simp add: api_increment_def readData_def)

text \<open>
  C3. The increment handler calls \<open>readData()\<close> without the access code, so each request,
  also one inside the rate-limit window, ends in the \<open>TypeError\<close> of
  \<open>getDataFile\<close> and the 500 of the framework: no 429 and no \<open>remainingTime\<close> is
  sent. No file changes.
\<close>

theorem api_increment_throws:
  "api_increment flt now timestamp now_id req_username fs = (Status500 TypeError, fs)"
  by (simp add: api_increment_def readData_def)

text \<open>
  C4. The delete handler calls \<open>readData()\<close> without the access code as well: whether the
  id is in the log or not, the request ends in the \<open>TypeError\<close> and the 500; there is
  neither a 404 nor a removal, and no file changes.
\<close>

theorem api_delete_log_throws:
  "api_delete_log flt logId fs = (Status500 TypeError, fs)"
  by (simp add: api_delete_log_def readData_def)

text \<open>
  C10. On a room whose log holds the same id twice, the delete handler removes no entry:
  the request for that id ends in the \<open>TypeError\<close> of \<open>readData()\<close> and the 500,
  and the document is as it was.
\<close>

theorem api_delete_log_duplicate_throws:
  "api_delete_log no_faults ''1700000000000'' [''counter-data-room.json'' \<mapsto> Json duplicate_state]
   = (Status500 TypeError, [''counter-data-room.json'' \<mapsto> Json duplicate_state])"
  by (simp add: api_delete_log_def readData_def)

end
